theory Spec2Isabelle
  imports Complex_Main
begin

section \<open>Outcomes of a call\<close>

text \<open>
  A Python call either returns or raises.  The exceptions that the modelled code and the
  tensor library can raise are the constructors of \<open>error\<close>.  \<open>NonFinite\<close> is not an
  exception: it marks a result that holds IEEE infinities or NaNs (a division by
  \<open>np.sqrt(d_k)\<close> for \<open>d_k \<le> 0\<close>), which have no value among the reals.  Arithmetic is
  otherwise exact: a tensor entry is a real number.
\<close>

datatype error = RuntimeError | IndexError | AttributeError | KeyError | AssertionError | NonFinite

definition ebind :: "error + 'a \<Rightarrow> ('a \<Rightarrow> error + 'b) \<Rightarrow> error + 'b" where
  "ebind m f = (case m of Inl e \<Rightarrow> Inl e | Inr v \<Rightarrow> f v)"

section \<open>Tensors\<close>

text \<open>
  A tensor is its shape and its entries in row-major (logical) order, as \<open>torch\<close> presents
  it whatever the strides of the storage are.  The program holds 32-bit floating-point
  numbers; the model holds the real numbers that the program's formulas denote.  What
  depends on rounding, on overflow or on the order in which a floating-point sum is
  taken is therefore outside the model.
\<close>

record tensor =
  shape :: "nat list"
  data :: "real list"

definition numel :: "tensor \<Rightarrow> nat" where
  "numel t = prod_list (shape t)"

definition tensor_ok :: "tensor \<Rightarrow> bool" where
  "tensor_ok t = (length (data t) = prod_list (shape t))"

fun ravel :: "nat list \<Rightarrow> nat list \<Rightarrow> nat" where
  "ravel (s # ss) (i # is) = i * prod_list ss + ravel ss is"
| "ravel _ _ = 0"

fun unravel :: "nat list \<Rightarrow> nat \<Rightarrow> nat list" where
  "unravel [] k = []"
| "unravel (s # ss) k = (k div prod_list ss) # unravel ss (k mod prod_list ss)"

definition valid_idx :: "nat list \<Rightarrow> nat list \<Rightarrow> bool" where
  "valid_idx s idx = list_all2 (\<lambda>i n. i < n) idx s"

definition elt :: "tensor \<Rightarrow> nat list \<Rightarrow> real" where
  "elt t idx = data t ! ravel (shape t) idx"

definition from_fn :: "nat list \<Rightarrow> (nat list \<Rightarrow> real) \<Rightarrow> tensor" where
  "from_fn s f = \<lparr>shape = s, data = map (\<lambda>k. f (unravel s k)) [0..<prod_list s]\<rparr>"

subsection \<open>Shape inference of \<open>view\<close> and \<open>reshape\<close>\<close>

text \<open>
  \<open>infer_size\<close> follows the library routine of the same name: at most one entry of the
  requested shape may be \<open>-1\<close>; it is inferred from the number of elements, which fails
  when the product of the other entries is zero (the entry would be ambiguous) or does not
  divide the number of elements.
\<close>

definition infer_size :: "int list \<Rightarrow> nat \<Rightarrow> error + nat list" where
  "infer_size shp n =
     (if list_ex (\<lambda>d. d < -1) shp then Inl RuntimeError
      else if 1 < length (filter (\<lambda>d. d = -1) shp) then Inl RuntimeError
      else
        let newsize = prod_list (map nat (filter (\<lambda>d. d \<noteq> -1) shp)) in
        if list_ex (\<lambda>d. d = -1) shp then
          (if 0 < newsize \<and> n mod newsize = 0
           then Inr (map (\<lambda>d. if d = -1 then n div newsize else nat d) shp)
           else Inl RuntimeError)
        else if n = newsize then Inr (map nat shp)
        else Inl RuntimeError)"

definition reshape :: "tensor \<Rightarrow> int list \<Rightarrow> error + tensor" where
  "reshape t shp = ebind (infer_size shp (numel t)) (\<lambda>s. Inr \<lparr>shape = s, data = data t\<rparr>)"

text \<open>
  \<open>view\<close> is \<open>reshape\<close> on a contiguous tensor; the code applies it only to the fresh
  output of a linear layer, which is contiguous.
\<close>

definition view :: "tensor \<Rightarrow> int list \<Rightarrow> error + tensor" where
  "view t shp = reshape t shp"

subsection \<open>Permuting axes\<close>

fun index_of :: "nat list \<Rightarrow> nat \<Rightarrow> nat" where
  "index_of [] d = 0"
| "index_of (p # ps) d = (if p = d then 0 else Suc (index_of ps d))"

definition permute :: "tensor \<Rightarrow> nat list \<Rightarrow> error + tensor" where
  "permute t p =
     (if length p = length (shape t) \<and> distinct p \<and> list_all (\<lambda>d. d < length (shape t)) p
      then Inr (from_fn (map (\<lambda>d. shape t ! d) p)
                  (\<lambda>idx. elt t (map (\<lambda>d. idx ! index_of p d) [0..<length p])))
      else Inl RuntimeError)"

definition wrap_dim :: "nat \<Rightarrow> int \<Rightarrow> error + nat" where
  "wrap_dim n d =
     (let r = (if n = 0 then 1 else int n) in
      if - r \<le> d \<and> d < r then Inr (nat (if d < 0 then d + r else d)) else Inl IndexError)"

definition transpose_dims :: "tensor \<Rightarrow> int \<Rightarrow> int \<Rightarrow> error + tensor" where
  "transpose_dims t d0 d1 =
     ebind (wrap_dim (length (shape t)) d0) (\<lambda>a.
     ebind (wrap_dim (length (shape t)) d1) (\<lambda>b.
       if shape t = [] then Inr t
       else permute t (([0..<length (shape t)])[a := b, b := a])))"

subsection \<open>Broadcasting\<close>

fun broadcast_rev :: "nat list \<Rightarrow> nat list \<Rightarrow> error + nat list" where
  "broadcast_rev [] bs = Inr bs"
| "broadcast_rev (a # as) [] = Inr (a # as)"
| "broadcast_rev (a # as) (b # bs) =
     (if a = b \<or> b = 1 then ebind (broadcast_rev as bs) (\<lambda>r. Inr (a # r))
      else if a = 1 then ebind (broadcast_rev as bs) (\<lambda>r. Inr (b # r))
      else Inl RuntimeError)"

definition broadcast_shapes :: "nat list \<Rightarrow> nat list \<Rightarrow> error + nat list" where
  "broadcast_shapes a b = ebind (broadcast_rev (rev a) (rev b)) (\<lambda>r. Inr (rev r))"

definition bcast_idx :: "nat list \<Rightarrow> nat list \<Rightarrow> nat list" where
  "bcast_idx s idx =
     map2 (\<lambda>n i. if n = 1 then 0 else i) s (drop (length idx - length s) idx)"

definition add :: "tensor \<Rightarrow> tensor \<Rightarrow> error + tensor" where
  "add a b =
     ebind (broadcast_shapes (shape a) (shape b)) (\<lambda>s.
       Inr (from_fn s (\<lambda>idx. elt a (bcast_idx (shape a) idx) + elt b (bcast_idx (shape b) idx))))"

subsection \<open>Matrix product\<close>

text \<open>
  \<open>torch.matmul\<close>: a one-dimensional operand is promoted to a matrix and the added axis
  is removed from the result; the leading (batch) axes broadcast; the contracted sizes
  must agree.
\<close>

definition matmul :: "tensor \<Rightarrow> tensor \<Rightarrow> error + tensor" where
  "matmul a b =
     (if shape a = [] \<or> shape b = [] then Inl RuntimeError
      else
        let sa = (if length (shape a) = 1 then 1 # shape a else shape a);
            sb = (if length (shape b) = 1 then shape b @ [1] else shape b);
            ba = take (length sa - 2) sa;
            bb = take (length sb - 2) sb;
            m = sa ! (length sa - 2);
            k = last sa;
            n = last sb
        in
        if k \<noteq> sb ! (length sb - 2) then Inl RuntimeError
        else
          ebind (broadcast_shapes ba bb) (\<lambda>bs.
            let r = from_fn (bs @ [m, n])
                      (\<lambda>idx. \<Sum>l\<leftarrow>[0..<k].
                         data a ! ravel sa (bcast_idx ba (take (length bs) idx) @ [idx ! length bs, l]) *
                         data b ! ravel sb (bcast_idx bb (take (length bs) idx) @ [l, idx ! Suc (length bs)]))
            in Inr \<lparr>shape = bs @ (if length (shape a) = 1 then [] else [m])
                                @ (if length (shape b) = 1 then [] else [n]),
                    data = data r\<rparr>))"

subsection \<open>Pointwise operations, softmax\<close>

text \<open>
  Division of every entry by \<open>np.sqrt(d)\<close>.  For \<open>d \<le> 0\<close> the divisor is zero or NaN and
  every entry of the quotient is an infinity or a NaN.
\<close>

definition div_sqrt :: "tensor \<Rightarrow> real \<Rightarrow> error + tensor" where
  "div_sqrt t d =
     (if d \<le> 0 \<and> data t \<noteq> [] then Inl NonFinite
      else Inr \<lparr>shape = shape t, data = map (\<lambda>v. v / sqrt d) (data t)\<rparr>)"

definition relu :: "tensor \<Rightarrow> tensor" where
  "relu t = \<lparr>shape = shape t, data = map (\<lambda>v. max 0 v) (data t)\<rparr>"

text \<open>
  \<open>nn.Softmax(dim=-1)\<close>: the exponential of every entry is divided by the sum of the
  exponentials over its last axis; a tensor without axes is a single entry, whose
  softmax is 1.
\<close>

definition softmax_last :: "tensor \<Rightarrow> tensor" where
  "softmax_last t =
     (if shape t = [] then \<lparr>shape = [], data = [1]\<rparr>
      else from_fn (shape t)
             (\<lambda>idx. exp (elt t idx) /
                     (\<Sum>j\<leftarrow>[0..<last (shape t)]. exp (elt t (butlast idx @ [j])))))"

section \<open>Library layers\<close>

text \<open>
  \<open>nn.Linear(in, out, bias=False)\<close> owns a weight of shape \<open>(out, in)\<close> and maps \<open>x\<close> to
  \<open>matmul(x, weight.t())\<close>.
\<close>

record Linear =
  in_features :: nat
  out_features :: nat
  weight :: tensor

definition Linear_inv :: "Linear \<Rightarrow> bool" where
  "Linear_inv l = (shape (weight l) = [out_features l, in_features l] \<and> tensor_ok (weight l))"

definition Linear_forward :: "Linear \<Rightarrow> tensor \<Rightarrow> error + tensor" where
  "Linear_forward l x = ebind (transpose_dims (weight l) 0 1) (\<lambda>wt. matmul x wt)"

text \<open>
  \<open>nn.LayerNorm(d)\<close> normalises over the last axis, which must have size \<open>d\<close>, with the
  biased variance, and applies the learned scale and shift.
\<close>

record LayerNorm =
  normalized_shape :: nat
  ln_weight :: tensor
  ln_bias :: tensor
  eps :: real

definition LayerNorm_inv :: "LayerNorm \<Rightarrow> bool" where
  "LayerNorm_inv l =
     (shape (ln_weight l) = [normalized_shape l] \<and> tensor_ok (ln_weight l) \<and>
      shape (ln_bias l) = [normalized_shape l] \<and> tensor_ok (ln_bias l) \<and> 0 < eps l)"

definition row_mean :: "tensor \<Rightarrow> nat list \<Rightarrow> real" where
  "row_mean x idx =
     (\<Sum>j\<leftarrow>[0..<last (shape x)]. elt x (butlast idx @ [j])) / real (last (shape x))"

definition row_var :: "tensor \<Rightarrow> nat list \<Rightarrow> real" where
  "row_var x idx =
     (\<Sum>j\<leftarrow>[0..<last (shape x)]. (elt x (butlast idx @ [j]) - row_mean x idx)\<^sup>2)
       / real (last (shape x))"

definition LayerNorm_forward :: "LayerNorm \<Rightarrow> tensor \<Rightarrow> error + tensor" where
  "LayerNorm_forward l x =
     (if shape x = [] \<or> last (shape x) \<noteq> normalized_shape l then Inl RuntimeError
      else Inr (from_fn (shape x)
             (\<lambda>idx. (elt x idx - row_mean x idx) / sqrt (row_var x idx + eps l)
                      * elt (ln_weight l) [last idx] + elt (ln_bias l) [last idx])))"

section \<open>The attention modules\<close>

subsection \<open>ScaledDotProductAttention\<close>

definition sdpa_scores :: "tensor \<Rightarrow> tensor \<Rightarrow> real \<Rightarrow> error + tensor" where
  "sdpa_scores Q K d_k =
     ebind (transpose_dims K (-1) (-2)) (\<lambda>Kt.
     ebind (matmul Q Kt) (\<lambda>qk. div_sqrt qk d_k))"

definition sdpa_attn :: "tensor \<Rightarrow> tensor \<Rightarrow> real \<Rightarrow> error + tensor" where
  "sdpa_attn Q K d_k = ebind (sdpa_scores Q K d_k) (\<lambda>scores. Inr (softmax_last scores))"

definition ScaledDotProductAttention_forward ::
    "tensor \<Rightarrow> tensor \<Rightarrow> tensor \<Rightarrow> real \<Rightarrow> error + tensor" where
  "ScaledDotProductAttention_forward Q K V d_k =
     ebind (sdpa_attn Q K d_k) (\<lambda>attn. matmul attn V)"

subsection \<open>MultiHeadAttention\<close>

record MultiHeadAttention =
  d_k :: nat
  d_v :: nat
  n_heads :: nat
  W_Q :: Linear
  W_K :: Linear
  W_V :: Linear
  fc :: Linear
  norm :: LayerNorm

text \<open>What \<open>__init__(d_model, d_k, d_v, n_heads)\<close> establishes and training preserves.\<close>

definition MultiHeadAttention_inv :: "nat \<Rightarrow> MultiHeadAttention \<Rightarrow> bool" where
  "MultiHeadAttention_inv d_model m =
     (Linear_inv (W_Q m) \<and> in_features (W_Q m) = d_model \<and> out_features (W_Q m) = d_k m * n_heads m \<and>
      Linear_inv (W_K m) \<and> in_features (W_K m) = d_model \<and> out_features (W_K m) = d_k m * n_heads m \<and>
      Linear_inv (W_V m) \<and> in_features (W_V m) = d_model \<and> out_features (W_V m) = d_v m * n_heads m \<and>
      Linear_inv (fc m) \<and> in_features (fc m) = n_heads m * d_v m \<and> out_features (fc m) = d_model \<and>
      LayerNorm_inv (norm m) \<and> normalized_shape (norm m) = d_model)"

definition size0 :: "tensor \<Rightarrow> error + nat" where
  "size0 t = (case shape t of [] \<Rightarrow> Inl IndexError | n # _ \<Rightarrow> Inr n)"

definition split_heads :: "tensor \<Rightarrow> nat \<Rightarrow> nat \<Rightarrow> nat \<Rightarrow> error + tensor" where
  "split_heads y batch_size h d =
     ebind (view y [int batch_size, -1, int h, int d]) (\<lambda>v. transpose_dims v 1 2)"

definition MultiHeadAttention_forward ::
    "MultiHeadAttention \<Rightarrow> tensor \<Rightarrow> tensor \<Rightarrow> tensor \<Rightarrow> error + tensor" where
  "MultiHeadAttention_forward m input_Q input_K input_V =
     ebind (size0 input_Q) (\<lambda>batch_size.
     let residual = input_Q in
     ebind (ebind (Linear_forward (W_Q m) input_Q) (\<lambda>y. split_heads y batch_size (n_heads m) (d_k m))) (\<lambda>Q.
     ebind (ebind (Linear_forward (W_K m) input_K) (\<lambda>y. split_heads y batch_size (n_heads m) (d_k m))) (\<lambda>K.
     ebind (ebind (Linear_forward (W_V m) input_V) (\<lambda>y. split_heads y batch_size (n_heads m) (d_v m))) (\<lambda>V.
     ebind (ScaledDotProductAttention_forward Q K V (real (d_k m))) (\<lambda>context.
     ebind (transpose_dims context 1 2) (\<lambda>ct.
     ebind (reshape ct [int batch_size, -1, int (n_heads m * d_v m)]) (\<lambda>context'.
     ebind (Linear_forward (fc m) context') (\<lambda>output.
     ebind (add output residual) (\<lambda>s. LayerNorm_forward (norm m) s)))))))))"

subsection \<open>PoswiseFeedForwardNet\<close>

record PoswiseFeedForwardNet =
  ffn_fc1 :: Linear
  ffn_fc2 :: Linear
  ffn_norm :: LayerNorm

definition PoswiseFeedForwardNet_forward :: "PoswiseFeedForwardNet \<Rightarrow> tensor \<Rightarrow> error + tensor" where
  "PoswiseFeedForwardNet_forward p inputs =
     (let residual = inputs in
      ebind (Linear_forward (ffn_fc1 p) inputs) (\<lambda>h.
      ebind (Linear_forward (ffn_fc2 p) (relu h)) (\<lambda>output.
      ebind (add output residual) (\<lambda>s. LayerNorm_forward (ffn_norm p) s))))"

subsection \<open>Multi\_Heads\<close>

record Multi_Heads =
  multi_head1 :: MultiHeadAttention
  multi_head2 :: MultiHeadAttention
  Feed_forward :: PoswiseFeedForwardNet

text \<open>The sizes fixed by the default arguments of the constructors that \<open>__init__\<close> calls.\<close>

definition Multi_Heads_inv :: "Multi_Heads \<Rightarrow> bool" where
  "Multi_Heads_inv s =
     (MultiHeadAttention_inv 512 (multi_head1 s) \<and>
      d_k (multi_head1 s) = 64 \<and> d_v (multi_head1 s) = 64 \<and> n_heads (multi_head1 s) = 8 \<and>
      MultiHeadAttention_inv 512 (multi_head2 s) \<and>
      d_k (multi_head2 s) = 64 \<and> d_v (multi_head2 s) = 64 \<and> n_heads (multi_head2 s) = 8)"

definition shape_at :: "nat list \<Rightarrow> nat \<Rightarrow> error + nat" where
  "shape_at s i = (if i < length s then Inr (s ! i) else Inl IndexError)"

definition Multi_Heads_forward :: "Multi_Heads \<Rightarrow> tensor \<Rightarrow> error + tensor" where
  "Multi_Heads_forward s x =
     (let x_shape = shape x in
      ebind (shape_at x_shape 0) (\<lambda>s0.
      ebind (shape_at x_shape 1) (\<lambda>s1.
      ebind (shape_at x_shape 2) (\<lambda>s2.
      ebind (shape_at x_shape 3) (\<lambda>s3.
      ebind (reshape x [int s0, int s1, int (s2 * s3)]) (\<lambda>x1.
      ebind (permute x1 [0, 2, 1]) (\<lambda>x2.
      ebind (MultiHeadAttention_forward (multi_head1 s) x2 x2 x2) (\<lambda>x3.
      ebind (MultiHeadAttention_forward (multi_head2 s) x3 x3 x3) (\<lambda>x4.
      ebind (permute x4 [0, 2, 1]) (\<lambda>x5.
        reshape x5 [int s0, int s1, int s2, int s3]))))))))))"

subsection \<open>CIF\_Multihead\<close>

text \<open>
  \<open>ShapeSpec\<close> is the framework's record of optional sizes.  An upstream object is a
  \<open>Backbone\<close> or something else; what a backbone's \<open>forward\<close> returns is a Python value,
  a tensor or a dictionary of tensors.
\<close>

record ShapeSpec =
  channels :: "int option"
  height :: "int option"
  width :: "int option"
  stride :: "int option"

datatype pyvalue = Tensor tensor | Dict "string \<rightharpoonup> tensor"

record 'i Backbone =
  forward :: "'i \<Rightarrow> error + pyvalue"
  output_shape :: "string \<rightharpoonup> ShapeSpec"

datatype 'i pyobject = IsBackbone "'i Backbone" | NotBackbone

record 'i CIF_Multihead =
  strides :: "int option"
  in_channels :: "int option"
  features1 :: "'i Backbone"
  features2 :: Multi_Heads

text \<open>
  \<open>__init__\<close>; the second argument is the freshly initialised attention stack that
  \<open>Multi_Heads()\<close> creates.
\<close>

definition CIF_Multihead_init :: "'i pyobject \<Rightarrow> Multi_Heads \<Rightarrow> error + 'i CIF_Multihead" where
  "CIF_Multihead_init bottom_up mh =
     (case bottom_up of
        NotBackbone \<Rightarrow> Inl AssertionError
      | IsBackbone b \<Rightarrow>
          (let input_shape = output_shape b in
           case input_shape ''CIF'' of
             None \<Rightarrow> Inl KeyError
           | Some spec \<Rightarrow>
               Inr \<lparr>strides = stride spec, in_channels = channels spec,
                    features1 = b, features2 = mh\<rparr>))"

text \<open>
  Calling the attention stack on a Python value: \<open>Multi_Heads.forward\<close> starts by reading
  \<open>x.shape\<close>, an attribute that a dictionary does not have.
\<close>

definition Multi_Heads_call :: "Multi_Heads \<Rightarrow> pyvalue \<Rightarrow> error + tensor" where
  "Multi_Heads_call s v =
     (case v of Tensor x \<Rightarrow> Multi_Heads_forward s x | Dict _ \<Rightarrow> Inl AttributeError)"

definition CIF_Multihead_forward :: "'i CIF_Multihead \<Rightarrow> 'i \<Rightarrow> error + (string \<rightharpoonup> tensor)" where
  "CIF_Multihead_forward self x =
     ebind (forward (features1 self) x) (\<lambda>x1.
     ebind (Multi_Heads_call (features2 self) x1) (\<lambda>x2.
       Inr [''CIF_MultiHead'' \<mapsto> x2]))"

definition CIF_Multihead_output_shape :: "'i CIF_Multihead \<Rightarrow> (string \<rightharpoonup> ShapeSpec)" where
  "CIF_Multihead_output_shape self =
     [''CIF_MultiHead'' \<mapsto>
        \<lparr>channels = in_channels self, height = None, width = None, stride = strides self\<rparr>]"

section \<open>Entries by position\<close>

text \<open>
  A function of two, three or four positions as a function of an index list (for
  \<open>from_fn\<close>), and a tensor of rank three or four read as a function of its positions;
  used to state what the operations compute.
\<close>

fun fn2 :: "(nat \<Rightarrow> nat \<Rightarrow> real) \<Rightarrow> nat list \<Rightarrow> real" where
  "fn2 f [i, j] = f i j"
| "fn2 f _ = 0"

fun fn3 :: "(nat \<Rightarrow> nat \<Rightarrow> nat \<Rightarrow> real) \<Rightarrow> nat list \<Rightarrow> real" where
  "fn3 f [i, j, k] = f i j k"
| "fn3 f _ = 0"

fun fn4 :: "(nat \<Rightarrow> nat \<Rightarrow> nat \<Rightarrow> nat \<Rightarrow> real) \<Rightarrow> nat list \<Rightarrow> real" where
  "fn4 f [i, j, k, l] = f i j k l"
| "fn4 f _ = 0"

definition elt4 :: "tensor \<Rightarrow> nat \<Rightarrow> nat \<Rightarrow> nat \<Rightarrow> nat \<Rightarrow> real" where
  "elt4 t i j k l = elt t [i, j, k, l]"

definition elt3 :: "tensor \<Rightarrow> nat \<Rightarrow> nat \<Rightarrow> nat \<Rightarrow> real" where
  "elt3 t i j k = elt t [i, j, k]"

section \<open>What the modules compute, entry by entry\<close>

text \<open>
  The functions below follow the specification's words, not the code: a bias-free linear
  projection, the split of the embedding axis into heads and its inverse,
  \<open>softmax(Q K\<^sup>T / sqrt(d_k)) V\<close> with the softmax taken over the key axis for each
  batch element, head and query position, layer normalisation over the embedding axis,
  their composition in a multi-head attention block (\<open>mha_fn\<close>), and two such blocks
  applied to the token sequence of a feature map (\<open>stack_fn\<close>).
\<close>

definition linear_fn :: "tensor \<Rightarrow> nat \<Rightarrow> (nat \<Rightarrow> nat \<Rightarrow> nat \<Rightarrow> real) \<Rightarrow> nat \<Rightarrow> nat \<Rightarrow> nat \<Rightarrow> real" where
  "linear_fn w n x b t c = (\<Sum>e<n. x b t e * elt w [c, e])"

definition split_fn :: "nat \<Rightarrow> (nat \<Rightarrow> nat \<Rightarrow> nat \<Rightarrow> real) \<Rightarrow> nat \<Rightarrow> nat \<Rightarrow> nat \<Rightarrow> nat \<Rightarrow> real" where
  "split_fn d y b h t j = y b t (h * d + j)"

definition merge_fn :: "nat \<Rightarrow> (nat \<Rightarrow> nat \<Rightarrow> nat \<Rightarrow> nat \<Rightarrow> real) \<Rightarrow> nat \<Rightarrow> nat \<Rightarrow> nat \<Rightarrow> real" where
  "merge_fn d c b t e = c b (e div d) t (e mod d)"

definition attn_score ::
  "(nat \<Rightarrow> nat \<Rightarrow> nat \<Rightarrow> nat \<Rightarrow> real) \<Rightarrow> (nat \<Rightarrow> nat \<Rightarrow> nat \<Rightarrow> nat \<Rightarrow> real) \<Rightarrow> nat \<Rightarrow> real \<Rightarrow>
   nat \<Rightarrow> nat \<Rightarrow> nat \<Rightarrow> nat \<Rightarrow> real" where
  "attn_score q k n dk b h t s = (\<Sum>l<n. q b h t l * k b h s l) / sqrt dk"

definition attn_weight ::
  "(nat \<Rightarrow> nat \<Rightarrow> nat \<Rightarrow> nat \<Rightarrow> real) \<Rightarrow> (nat \<Rightarrow> nat \<Rightarrow> nat \<Rightarrow> nat \<Rightarrow> real) \<Rightarrow> nat \<Rightarrow> real \<Rightarrow> nat \<Rightarrow>
   nat \<Rightarrow> nat \<Rightarrow> nat \<Rightarrow> nat \<Rightarrow> real" where
  "attn_weight q k n dk len_k b h t s =
     exp (attn_score q k n dk b h t s) / (\<Sum>s'<len_k. exp (attn_score q k n dk b h t s'))"

definition attn_context ::
  "(nat \<Rightarrow> nat \<Rightarrow> nat \<Rightarrow> nat \<Rightarrow> real) \<Rightarrow> (nat \<Rightarrow> nat \<Rightarrow> nat \<Rightarrow> nat \<Rightarrow> real) \<Rightarrow>
   (nat \<Rightarrow> nat \<Rightarrow> nat \<Rightarrow> nat \<Rightarrow> real) \<Rightarrow> nat \<Rightarrow> real \<Rightarrow> nat \<Rightarrow>
   nat \<Rightarrow> nat \<Rightarrow> nat \<Rightarrow> nat \<Rightarrow> real" where
  "attn_context q k v n dk len_k b h t j =
     (\<Sum>s<len_k. attn_weight q k n dk len_k b h t s * v b h s j)"

definition layer_norm_fn :: "LayerNorm \<Rightarrow> nat \<Rightarrow> (nat \<Rightarrow> nat \<Rightarrow> nat \<Rightarrow> real) \<Rightarrow> nat \<Rightarrow> nat \<Rightarrow> nat \<Rightarrow> real" where
  "layer_norm_fn nrm n x b t e =
     (let mean = (\<Sum>e'<n. x b t e') / real n;
          var = (\<Sum>e'<n. (x b t e' - mean)\<^sup>2) / real n
      in (x b t e - mean) / sqrt (var + eps nrm) * elt (ln_weight nrm) [e] + elt (ln_bias nrm) [e])"

definition mha_fn ::
  "MultiHeadAttention \<Rightarrow> nat \<Rightarrow> nat \<Rightarrow> (nat \<Rightarrow> nat \<Rightarrow> nat \<Rightarrow> real) \<Rightarrow> (nat \<Rightarrow> nat \<Rightarrow> nat \<Rightarrow> real) \<Rightarrow>
   (nat \<Rightarrow> nat \<Rightarrow> nat \<Rightarrow> real) \<Rightarrow> nat \<Rightarrow> nat \<Rightarrow> nat \<Rightarrow> real" where
  "mha_fn m d_model len_k xq xk xv =
     layer_norm_fn (norm m) d_model
       (\<lambda>b t e.
          linear_fn (weight (fc m)) (n_heads m * d_v m)
            (merge_fn (d_v m)
               (attn_context
                  (split_fn (d_k m) (linear_fn (weight (W_Q m)) d_model xq))
                  (split_fn (d_k m) (linear_fn (weight (W_K m)) d_model xk))
                  (split_fn (d_v m) (linear_fn (weight (W_V m)) d_model xv))
                  (d_k m) (real (d_k m)) len_k)) b t e
          + xq b t e)"

definition tokens_fn :: "nat \<Rightarrow> (nat \<Rightarrow> nat \<Rightarrow> nat \<Rightarrow> nat \<Rightarrow> real) \<Rightarrow> nat \<Rightarrow> nat \<Rightarrow> nat \<Rightarrow> real" where
  "tokens_fn W x b p c = x b c (p div W) (p mod W)"

definition stack_fn :: "Multi_Heads \<Rightarrow> nat \<Rightarrow> nat \<Rightarrow> (nat \<Rightarrow> nat \<Rightarrow> nat \<Rightarrow> nat \<Rightarrow> real) \<Rightarrow>
    nat \<Rightarrow> nat \<Rightarrow> nat \<Rightarrow> nat \<Rightarrow> real" where
  "stack_fn s H W x =
     (let y0 = tokens_fn W x;
          y1 = mha_fn (multi_head1 s) 512 (H * W) y0 y0 y0;
          y2 = mha_fn (multi_head2 s) 512 (H * W) y1 y1 y1
      in (\<lambda>b c h w. y2 b (h * W + w) c))"

text \<open>
  A permutation of the token axis, on entries by position (\<open>ptok\<close>, \<open>ptok4\<close>) and on a
  feature map of shape \<open>(B, C, H, W)\<close>, whose tokens are its flattened positions
  \<open>h * W + w\<close>: the entry of the permuted map at position \<open>p\<close> is the entry of the map
  at position \<open>\<pi> p\<close>.
\<close>

definition ptok :: "(nat \<Rightarrow> nat) \<Rightarrow> (nat \<Rightarrow> nat \<Rightarrow> nat \<Rightarrow> real) \<Rightarrow> nat \<Rightarrow> nat \<Rightarrow> nat \<Rightarrow> real" where
  "ptok \<pi> x b t e = x b (\<pi> t) e"

definition ptok4 :: "(nat \<Rightarrow> nat) \<Rightarrow> (nat \<Rightarrow> nat \<Rightarrow> nat \<Rightarrow> nat \<Rightarrow> real) \<Rightarrow> nat \<Rightarrow> nat \<Rightarrow> nat \<Rightarrow> nat \<Rightarrow> real" where
  "ptok4 \<pi> q b h t l = q b h (\<pi> t) l"

definition permute_tokens :: "(nat \<Rightarrow> nat) \<Rightarrow> tensor \<Rightarrow> tensor" where
  "permute_tokens \<pi> x =
     (case shape x of
        [B, C, H, W] \<Rightarrow>
          from_fn [B, C, H, W]
            (fn4 (\<lambda>b c h w. elt x [b, c, \<pi> (h * W + w) div W, \<pi> (h * W + w) mod W]))
      | _ \<Rightarrow> x)"

section \<open>Example instances\<close>

text \<open>
  Concrete modules, backbones and tensors on which the theorems below are instantiated:
  linear layers with zero weights, layer normalisation as its constructor initialises
  it, three upstream backbones, a few small tensors and a transposition of two tokens.
\<close>

definition zeros :: "nat list \<Rightarrow> tensor" where
  "zeros s = \<lparr>shape = s, data = replicate (prod_list s) 0\<rparr>"

definition ones :: "nat list \<Rightarrow> tensor" where
  "ones s = \<lparr>shape = s, data = replicate (prod_list s) 1\<rparr>"

definition Linear_zero :: "nat \<Rightarrow> nat \<Rightarrow> Linear" where
  "Linear_zero i out = \<lparr>in_features = i, out_features = out, weight = zeros [out, i]\<rparr>"

definition LayerNorm_init :: "nat \<Rightarrow> LayerNorm" where
  "LayerNorm_init d = \<lparr>normalized_shape = d, ln_weight = ones [d], ln_bias = zeros [d], eps = 1 / 100000\<rparr>"

definition MultiHeadAttention_zero :: "nat \<Rightarrow> nat \<Rightarrow> nat \<Rightarrow> nat \<Rightarrow> MultiHeadAttention" where
  "MultiHeadAttention_zero d_model dk dv h =
     \<lparr>d_k = dk, d_v = dv, n_heads = h,
      W_Q = Linear_zero d_model (dk * h), W_K = Linear_zero d_model (dk * h),
      W_V = Linear_zero d_model (dv * h), fc = Linear_zero (h * dv) d_model,
      norm = LayerNorm_init d_model\<rparr>"

definition PoswiseFeedForwardNet_zero :: "nat \<Rightarrow> nat \<Rightarrow> PoswiseFeedForwardNet" where
  "PoswiseFeedForwardNet_zero d_model d_ff =
     \<lparr>ffn_fc1 = Linear_zero d_model d_ff, ffn_fc2 = Linear_zero d_ff d_model,
      ffn_norm = LayerNorm_init d_model\<rparr>"

definition Multi_Heads_zero :: Multi_Heads where
  "Multi_Heads_zero =
     \<lparr>multi_head1 = MultiHeadAttention_zero 512 64 64 8,
      multi_head2 = MultiHeadAttention_zero 512 64 64 8,
      Feed_forward = PoswiseFeedForwardNet_zero 512 2048\<rparr>"

definition upstream_tensor :: "tensor Backbone" where
  "upstream_tensor =
     \<lparr>forward = (\<lambda>x. Inr (Tensor x)),
      output_shape = [''CIF'' \<mapsto> \<lparr>channels = Some 512, height = None, width = None, stride = Some 32\<rparr>]\<rparr>"

definition upstream_dict :: "tensor Backbone" where
  "upstream_dict =
     \<lparr>forward = (\<lambda>x. Inr (Dict Map.empty)),
      output_shape = [''CIF'' \<mapsto> \<lparr>channels = Some 512, height = None, width = None, stride = Some 32\<rparr>]\<rparr>"

definition upstream_unnamed :: "tensor Backbone" where
  "upstream_unnamed =
     \<lparr>forward = (\<lambda>x. Inr (Tensor x)),
      output_shape = [''res5'' \<mapsto> \<lparr>channels = Some 512, height = None, width = None, stride = Some 32\<rparr>]\<rparr>"

definition refinement_over_dict :: "tensor CIF_Multihead" where
  "refinement_over_dict =
     \<lparr>strides = Some 32, in_channels = Some 512,
      features1 = upstream_dict, features2 = Multi_Heads_zero\<rparr>"

definition q_one :: tensor where
  "q_one = \<lparr>shape = [1, 1, 1, 1], data = [2]\<rparr>"

definition k_one :: tensor where
  "k_one = \<lparr>shape = [1, 1, 1, 1], data = [5]\<rparr>"

definition v_one :: tensor where
  "v_one = \<lparr>shape = [1, 1, 1, 1], data = [3]\<rparr>"

definition k_none :: tensor where
  "k_none = \<lparr>shape = [1, 1, 0, 1], data = []\<rparr>"

definition swap01 :: "nat \<Rightarrow> nat" where
  "swap01 p = (if p = 0 then 1 else if p = 1 then 0 else p)"

definition ramp :: "nat list \<Rightarrow> tensor" where
  "ramp s = \<lparr>shape = s, data = map real [0..<prod_list s]\<rparr>"

section \<open>Facts about tensors and the library operations\<close>

lemma valid_idx_Nil [simp]: "valid_idx [] idx \<longleftrightarrow> idx = []"
  by (simp add: valid_idx_def)

lemma valid_idx_Cons [simp]:
  "valid_idx (n # s) idx \<longleftrightarrow> (\<exists>i is. idx = i # is \<and> i < n \<and> valid_idx s is)"
  by (simp add: valid_idx_def list_all2_Cons2)

lemma valid_idx_length: "valid_idx s idx \<Longrightarrow> length idx = length s"
  by (simp add: valid_idx_def list_all2_lengthD)

lemma ravel_lt: "valid_idx s idx \<Longrightarrow> ravel s idx < prod_list s"
proof (induction s arbitrary: idx)
  case Nil
  then show ?case by simp
next
  case (Cons n s)
  then obtain i "is" where idx: "idx = i # is" and i: "i < n" and v: "valid_idx s is"
    by auto
  have "ravel s is < prod_list s" by (rule Cons.IH [OF v])
  moreover have "i * prod_list s + prod_list s \<le> n * prod_list s"
    using i by (metis Suc_leI mult_Suc mult_le_mono1 add.commute)
  ultimately show ?case using idx by simp
qed

lemma unravel_ravel: "valid_idx s idx \<Longrightarrow> unravel s (ravel s idx) = idx"
proof (induction s arbitrary: idx)
  case Nil
  then show ?case by simp
next
  case (Cons n s)
  then obtain i "is" where idx: "idx = i # is" and i: "i < n" and v: "valid_idx s is"
    by auto
  have lt: "ravel s is < prod_list s" by (rule ravel_lt [OF v])
  show ?case using idx lt Cons.IH [OF v] by simp
qed

lemma valid_unravel: "k < prod_list s \<Longrightarrow> valid_idx s (unravel s k)"
proof (induction s arbitrary: k)
  case Nil
  then show ?case by simp
next
  case (Cons n s)
  have pos: "0 < prod_list s" using Cons.prems by (cases "prod_list s = 0") auto
  have "k div prod_list s < n"
    using Cons.prems pos by (simp add: less_mult_imp_div_less mult.commute)
  moreover have "valid_idx s (unravel s (k mod prod_list s))"
    using pos by (intro Cons.IH) simp
  ultimately show ?case by simp
qed

lemma ravel_unravel: "k < prod_list s \<Longrightarrow> ravel s (unravel s k) = k"
proof (induction s arbitrary: k)
  case Nil
  then show ?case by simp
next
  case (Cons n s)
  have pos: "0 < prod_list s" using Cons.prems by (cases "prod_list s = 0") auto
  have "ravel s (unravel s (k mod prod_list s)) = k mod prod_list s"
    using pos by (intro Cons.IH) simp
  then show ?case by simp
qed

lemma shape_from_fn [simp]: "shape (from_fn s f) = s"
  by (simp add: from_fn_def)

lemma tensor_ok_from_fn [simp]: "tensor_ok (from_fn s f)"
  by (simp add: from_fn_def tensor_ok_def)

lemma elt_from_fn [simp]: "valid_idx s idx \<Longrightarrow> elt (from_fn s f) idx = f idx"
  by (simp add: from_fn_def elt_def ravel_lt unravel_ravel)

lemma from_fn_cong:
  assumes "\<And>idx. valid_idx s idx \<Longrightarrow> f idx = g idx"
  shows "from_fn s f = from_fn s g"
  using assms by (simp add: from_fn_def valid_unravel)

lemma from_fn_elt: "tensor_ok t \<Longrightarrow> from_fn (shape t) (elt t) = t"
proof -
  assume ok: "tensor_ok t"
  have "map (\<lambda>k. data t ! ravel (shape t) (unravel (shape t) k)) [0..<prod_list (shape t)] = data t"
    using ok by (intro nth_equalityI) (simp_all add: tensor_ok_def ravel_unravel)
  then show ?thesis by (simp add: from_fn_def elt_def)
qed

lemma tensor_eqI:
  assumes "tensor_ok a" "tensor_ok b" "shape a = shape b"
    and "\<And>idx. valid_idx (shape a) idx \<Longrightarrow> elt a idx = elt b idx"
  shows "a = b"
proof -
  have "from_fn (shape a) (elt a) = from_fn (shape a) (elt b)"
    by (rule from_fn_cong) (rule assms(4))
  moreover have "from_fn (shape a) (elt a) = a" by (rule from_fn_elt [OF assms(1)])
  moreover have "from_fn (shape a) (elt b) = b"
    using from_fn_elt [OF assms(2)] assms(3) by simp
  ultimately show ?thesis by simp
qed

lemma upt_3: "[0..<3] = [0, 1, 2]" by (simp add: upt_conv_Cons)
lemma upt_4: "[0..<4] = [0, 1, 2, 3]" by (simp add: upt_conv_Cons)
lemma upt_2: "[0..<2] = [0, 1]" by (simp add: upt_conv_Cons)

lemma ebind_Inr [simp]: "ebind (Inr v) f = f v"
  by (simp add: ebind_def)

lemma ebind_Inl [simp]: "ebind (Inl e) f = Inl e"
  by (simp add: ebind_def)

lemma nat_int_comp: "nat \<circ> int = id"
  by auto

lemma infer_size_plain:
  "infer_size (map int s) n = (if n = prod_list s then Inr s else Inl RuntimeError)"
proof -
  have f: "filter (\<lambda>d. d \<noteq> -1) (map int s) = map int s"
    by (induction s) auto
  have g: "filter (\<lambda>d. d = -1) (map int s) = []"
    by (induction s) auto
  have e1: "\<not> list_ex (\<lambda>d. d < -1) (map int s)"
    by (induction s) auto
  have e2: "\<not> list_ex (\<lambda>d. d = -1) (map int s)"
    by (induction s) auto
  show ?thesis
    unfolding infer_size_def using e1 e2 by (simp add: f g nat_int_comp)
qed

lemma infer_size_4: 
  "infer_size [int b, -1, int h, int d] n =
     (if 0 < b * h * d \<and> n mod (b * h * d) = 0 then Inr [b, n div (b * h * d), h, d]
      else Inl RuntimeError)"
  by (simp add: infer_size_def Let_def mult.assoc)

lemma infer_size_3: 
  "infer_size [int b, -1, int e] n =
     (if 0 < b * e \<and> n mod (b * e) = 0 then Inr [b, n div (b * e), e]
      else Inl RuntimeError)"
  by (simp add: infer_size_def Let_def)

lemma permute_021:
  "shape t = [a, b, c] \<Longrightarrow>
   permute t [0, 2, 1] = Inr (from_fn [a, c, b] (fn3 (\<lambda>i j k. elt t [i, k, j])))"
  by (auto simp: permute_def upt_3 intro!: from_fn_cong)

lemma transpose_dims_12:
  "shape t = [a, b, c, d] \<Longrightarrow>
   transpose_dims t 1 2 = Inr (from_fn [a, c, b, d] (fn4 (\<lambda>i j k l. elt t [i, k, j, l])))"
  by (auto simp: transpose_dims_def wrap_dim_def permute_def upt_4 intro!: from_fn_cong)

lemma transpose_dims_last:
  "shape t = [a, b, c, d] \<Longrightarrow>
   transpose_dims t (-1) (-2) = Inr (from_fn [a, b, d, c] (fn4 (\<lambda>i j k l. elt t [i, j, l, k])))"
  by (auto simp: transpose_dims_def wrap_dim_def permute_def upt_4 intro!: from_fn_cong)

lemma transpose_dims_01:
  "shape t = [a, b] \<Longrightarrow>
   transpose_dims t 0 1 = Inr (from_fn [b, a] (fn2 (\<lambda>i j. elt t [j, i])))"
  by (auto simp: transpose_dims_def wrap_dim_def permute_def upt_2 intro!: from_fn_cong)

lemma broadcast_shapes_same2: "broadcast_shapes [a, b] [a, b] = Inr [a, b]"
  by (simp add: broadcast_shapes_def)

lemma broadcast_shapes_same3: "broadcast_shapes [a, b, c] [a, b, c] = Inr [a, b, c]"
  by (simp add: broadcast_shapes_def)

lemma broadcast_shapes_Nil2: "broadcast_shapes s [] = Inr s"
  by (cases "rev s") (auto simp: broadcast_shapes_def)

lemma bcast_idx_valid: "valid_idx s idx \<Longrightarrow> bcast_idx s idx = idx"
proof (induction s arbitrary: idx)
  case Nil
  then show ?case by (simp add: bcast_idx_def)
next
  case (Cons n s)
  then obtain i "is" where idx: "idx = i # is" and i: "i < n" and v: "valid_idx s is"
    by auto
  have "bcast_idx s is = is" by (rule Cons.IH [OF v])
  then show ?case using idx i valid_idx_length [OF v] by (auto simp: bcast_idx_def)
qed

lemma from_fn_eta: "\<lparr>shape = s, data = data (from_fn s f)\<rparr> = from_fn s f"
  by (simp add: from_fn_def)

lemma bcast_idx_2: "i < a \<Longrightarrow> j < b \<Longrightarrow> bcast_idx [a, b] [i, j] = [i, j]"
  by (rule bcast_idx_valid) simp

lemma bcast_idx_1: "i < a \<Longrightarrow> bcast_idx [a] [i] = [i]"
  by (rule bcast_idx_valid) simp

lemma bcast_idx_Nil: "bcast_idx [] idx = []"
  by (simp add: bcast_idx_def)

lemma matmul_44:
  assumes "shape x = [a, b, m, k]" "shape y = [a, b, k, n]"
  shows "matmul x y =
    Inr (from_fn [a, b, m, n] (fn4 (\<lambda>i j p q. \<Sum>l\<leftarrow>[0..<k]. elt x [i, j, p, l] * elt y [i, j, l, q])))"
  using assms
  apply (simp add: matmul_def Let_def broadcast_shapes_same2 from_fn_eta)
  apply (rule from_fn_cong)
  apply (auto simp: bcast_idx_2 elt_def)
  done

lemma matmul_32:
  assumes "shape x = [a, t, k]" "shape y = [k, n]"
  shows "matmul x y =
    Inr (from_fn [a, t, n] (fn3 (\<lambda>i p q. \<Sum>l\<leftarrow>[0..<k]. elt x [i, p, l] * elt y [l, q])))"
  using assms
  apply (simp add: matmul_def Let_def broadcast_shapes_Nil2 from_fn_eta)
  apply (rule from_fn_cong)
  apply (auto simp: bcast_idx_1 bcast_idx_Nil elt_def)
  done

lemma add_same3:
  assumes "shape x = [a, b, c]" "shape y = [a, b, c]"
  shows "add x y = Inr (from_fn [a, b, c] (\<lambda>idx. elt x idx + elt y idx))"
proof -
  have "from_fn [a, b, c] (\<lambda>idx. elt x (bcast_idx [a, b, c] idx) + elt y (bcast_idx [a, b, c] idx))
      = from_fn [a, b, c] (\<lambda>idx. elt x idx + elt y idx)"
    by (rule from_fn_cong) (simp add: bcast_idx_valid)
  then show ?thesis using assms by (simp add: add_def broadcast_shapes_same3)
qed

lemma sum_list_upt: "(\<Sum>l\<leftarrow>[0..<k]. f l) = (\<Sum>l<k. f l)"
  by (simp add: interv_sum_list_conv_sum_set_nat lessThan_atLeast0)

lemma from_fn_map: "\<lparr>shape = s, data = map g (data (from_fn s f))\<rparr> = from_fn s (\<lambda>idx. g (f idx))"
  by (simp add: from_fn_def)

lemma Linear_forward_3:
  assumes "Linear_inv l" "shape x = [a, t, in_features l]"
  shows "Linear_forward l x =
     Inr (from_fn [a, t, out_features l] (fn3 (linear_fn (weight l) (in_features l) (elt3 x))))"
proof -
  have w: "shape (weight l) = [out_features l, in_features l]"
    using assms(1) by (simp add: Linear_inv_def)
  show ?thesis
    unfolding Linear_forward_def
    apply (simp add: transpose_dims_01 [OF w] matmul_32 [OF assms(2)] sum_list_upt)
    apply (rule from_fn_cong)
    apply (auto simp: linear_fn_def elt3_def)
    done
qed

lemma split_heads_3:
  assumes "tensor_ok y" "shape y = [a, t, h * d]" "0 < a" "0 < h" "0 < d"
  shows "split_heads y a h d = Inr (from_fn [a, h, t, d] (fn4 (split_fn d (elt3 y))))"
proof -
  have n: "numel y = a * (t * (h * d))" using assms(2) by (simp add: numel_def)
  have "a * (t * (h * d)) = t * (a * h * d)" by simp
  then have dv: "a * (t * (h * d)) div (a * h * d) = t" "a * (t * (h * d)) mod (a * h * d) = 0"
    using assms(3,4,5) by simp_all
  have v: "view y [int a, -1, int h, int d] = Inr \<lparr>shape = [a, t, h, d], data = data y\<rparr>"
    using assms(3,4,5) dv by (simp add: view_def reshape_def infer_size_4 n)
  show ?thesis
    unfolding split_heads_def
    apply (simp add: v transpose_dims_12)
    apply (rule from_fn_cong)
    apply (auto simp: split_fn_def elt3_def elt_def assms(2) algebra_simps)
    done
qed

lemma div_sqrt_from_fn:
  "0 < d \<Longrightarrow> div_sqrt (from_fn s f) d = Inr (from_fn s (\<lambda>idx. f idx / sqrt d))"
  by (simp add: div_sqrt_def from_fn_map)

lemma sdpa_scores_4:
  assumes "shape Q = [a, h, t, n]" "shape K = [a, h, s, n]" "0 < dk"
  shows "sdpa_scores Q K dk = Inr (from_fn [a, h, t, s] (fn4 (attn_score (elt4 Q) (elt4 K) n dk)))"
  unfolding sdpa_scores_def
  apply (simp add: transpose_dims_last [OF assms(2)] matmul_44 [OF assms(1)] div_sqrt_from_fn assms(3) sum_list_upt)
  apply (rule from_fn_cong)
  apply (auto simp: attn_score_def elt4_def)
  done

lemma softmax_last_4:
  "softmax_last (from_fn [a, h, t, s] (fn4 f)) =
     from_fn [a, h, t, s] (fn4 (\<lambda>b c p q. exp (f b c p q) / (\<Sum>j<s. exp (f b c p j))))"
  unfolding softmax_last_def
  apply (simp add: sum_list_upt)
  apply (rule from_fn_cong)
  apply auto
  done

lemma sdpa_attn_4:
  assumes "shape Q = [a, h, t, n]" "shape K = [a, h, s, n]" "0 < dk"
  shows "sdpa_attn Q K dk = Inr (from_fn [a, h, t, s] (fn4 (attn_weight (elt4 Q) (elt4 K) n dk s)))"
  unfolding sdpa_attn_def
  apply (simp add: sdpa_scores_4 [OF assms] softmax_last_4)
  apply (rule from_fn_cong)
  apply (auto simp: attn_weight_def)
  done

lemma ScaledDotProductAttention_forward_4:
  assumes "shape Q = [a, h, t, n]" "shape K = [a, h, s, n]" "shape V = [a, h, s, m]" "0 < dk"
  shows "ScaledDotProductAttention_forward Q K V dk =
     Inr (from_fn [a, h, t, m] (fn4 (attn_context (elt4 Q) (elt4 K) (elt4 V) n dk s)))"
  unfolding ScaledDotProductAttention_forward_def
  apply (simp add: sdpa_attn_4 [OF assms(1,2,4)] matmul_44 [OF _ assms(3)] sum_list_upt)
  apply (rule from_fn_cong)
  apply (auto simp: attn_context_def elt4_def)
  done

lemma attn_weight_sum:
  assumes "0 < len_k"
  shows "(\<Sum>s<len_k. attn_weight q k n dk len_k b h t s) = 1"
proof -
  have pos: "0 < (\<Sum>s'<len_k. exp (attn_score q k n dk b h t s'))"
    using assms by (intro sum_pos) auto
  have "(\<Sum>s<len_k. attn_weight q k n dk len_k b h t s)
        = (\<Sum>s<len_k. exp (attn_score q k n dk b h t s)) / (\<Sum>s'<len_k. exp (attn_score q k n dk b h t s'))"
    by (simp add: attn_weight_def sum_divide_distrib [symmetric])
  also have "\<dots> = 1" using pos by simp
  finally show ?thesis .
qed

lemma elt3_from_fn: "i < a \<Longrightarrow> j < b \<Longrightarrow> k < c \<Longrightarrow> elt3 (from_fn [a, b, c] (fn3 f)) i j k = f i j k"
  by (simp add: elt3_def)

lemma elt4_from_fn:
  "i < a \<Longrightarrow> j < b \<Longrightarrow> k < c \<Longrightarrow> l < d \<Longrightarrow> elt4 (from_fn [a, b, c, d] (fn4 f)) i j k l = f i j k l"
  by (simp add: elt4_def)

lemma merge_heads_4:
  assumes "shape c = [a, h, t, d]" "0 < a" "0 < h" "0 < d"
  shows "ebind (transpose_dims c 1 2) (\<lambda>ct. reshape ct [int a, -1, int (h * d)]) =
           Inr (from_fn [a, t, h * d] (fn3 (merge_fn d (elt4 c))))"
proof -
  have "a * (t * (h * d)) = t * (a * (h * d))" by simp
  then have dv: "a * (t * (h * d)) div (a * (h * d)) = t" "a * (t * (h * d)) mod (a * (h * d)) = 0"
    using assms(2,3,4) by simp_all
  have inf: "infer_size [int a, -1, int (h * d)] (a * (t * (h * d))) = Inr [a, t, h * d]"
    using assms(2,3,4) dv by (simp add: infer_size_3 del: of_nat_mult)
  show ?thesis
    by (simp add: transpose_dims_12 [OF assms(1)] reshape_def numel_def inf
        from_fn_def merge_fn_def elt4_def del: of_nat_mult)
qed

lemma LayerNorm_forward_3:
  assumes "normalized_shape l = n"
  shows "LayerNorm_forward l (from_fn [a, t, n] (fn3 f)) =
           Inr (from_fn [a, t, n] (fn3 (layer_norm_fn l n f)))"
  unfolding LayerNorm_forward_def
  apply (simp add: assms)
  apply (rule from_fn_cong)
  apply (auto simp: layer_norm_fn_def row_mean_def row_var_def sum_list_upt Let_def)
  done

lemma linear_fn_cong:
  "(\<And>e. e < n \<Longrightarrow> x b t e = x' b t e) \<Longrightarrow> linear_fn w n x b t c = linear_fn w n x' b t c"
  by (simp add: linear_fn_def)

lemma attn_score_cong:
  "(\<And>l. l < n \<Longrightarrow> q b h t l = q' b h t l) \<Longrightarrow> (\<And>l. l < n \<Longrightarrow> k b h s l = k' b h s l) \<Longrightarrow>
   attn_score q k n dk b h t s = attn_score q' k' n dk b h t s"
  by (simp add: attn_score_def)

lemma attn_weight_cong:
  assumes "\<And>l. l < n \<Longrightarrow> q b h t l = q' b h t l"
    and "\<And>s l. s < len_k \<Longrightarrow> l < n \<Longrightarrow> k b h s l = k' b h s l"
    and "s < len_k"
  shows "attn_weight q k n dk len_k b h t s = attn_weight q' k' n dk len_k b h t s"
proof -
  have "\<And>s. s < len_k \<Longrightarrow> attn_score q k n dk b h t s = attn_score q' k' n dk b h t s"
    by (rule attn_score_cong) (simp_all add: assms(1,2))
  then show ?thesis using assms(3) by (simp add: attn_weight_def)
qed

lemma attn_context_cong:
  assumes "\<And>l. l < n \<Longrightarrow> q b h t l = q' b h t l"
    and "\<And>s l. s < len_k \<Longrightarrow> l < n \<Longrightarrow> k b h s l = k' b h s l"
    and "\<And>s. s < len_k \<Longrightarrow> v b h s j = v' b h s j"
  shows "attn_context q k v n dk len_k b h t j = attn_context q' k' v' n dk len_k b h t j"
proof -
  have "\<And>s. s < len_k \<Longrightarrow> attn_weight q k n dk len_k b h t s = attn_weight q' k' n dk len_k b h t s"
    by (rule attn_weight_cong) (simp_all add: assms(1,2))
  then show ?thesis by (simp add: attn_context_def assms(3))
qed

lemma layer_norm_fn_cong:
  "(\<And>e. e < n \<Longrightarrow> x b t e = x' b t e) \<Longrightarrow> e < n \<Longrightarrow>
   layer_norm_fn nrm n x b t e = layer_norm_fn nrm n x' b t e"
  by (simp add: layer_norm_fn_def)

lemma size0_3: "shape x = [a, t, d] \<Longrightarrow> size0 x = Inr a"
  by (simp add: size0_def)

lemma add_from_fn_3:
  assumes "shape y = [a, b, c]"
  shows "add (from_fn [a, b, c] (fn3 f)) y = Inr (from_fn [a, b, c] (fn3 (\<lambda>i j k. f i j k + elt3 y i j k)))"
proof -
  have "add (from_fn [a, b, c] (fn3 f)) y =
          Inr (from_fn [a, b, c] (\<lambda>idx. elt (from_fn [a, b, c] (fn3 f)) idx + elt y idx))"
    by (rule add_same3) (simp_all add: assms)
  also have "from_fn [a, b, c] (\<lambda>idx. elt (from_fn [a, b, c] (fn3 f)) idx + elt y idx)
           = from_fn [a, b, c] (fn3 (\<lambda>i j k. f i j k + elt3 y i j k))"
    by (rule from_fn_cong) (auto simp: elt3_def)
  finally show ?thesis .
qed

lemma MultiHeadAttention_forward_3:
  assumes inv: "MultiHeadAttention_inv D m"
    and sq: "shape xq = [B, T, D]" and sk: "shape xk = [B, S, D]" and sv: "shape xv = [B, S, D]"
    and pos: "0 < B" "0 < n_heads m" "0 < d_k m" "0 < d_v m"
  shows "MultiHeadAttention_forward m xq xk xv =
           Inr (from_fn [B, T, D] (fn3 (mha_fn m D S (elt3 xq) (elt3 xk) (elt3 xv))))"
proof -
  define H dk dv where "H = n_heads m" and "dk = d_k m" and "dv = d_v m"
  have p: "0 < H" "0 < dk" "0 < dv" using pos by (simp_all add: H_def dk_def dv_def)
  have iq: "Linear_inv (W_Q m)" "in_features (W_Q m) = D" "out_features (W_Q m) = H * dk"
    and ik: "Linear_inv (W_K m)" "in_features (W_K m) = D" "out_features (W_K m) = H * dk"
    and iv: "Linear_inv (W_V m)" "in_features (W_V m) = D" "out_features (W_V m) = H * dv"
    and ifc: "Linear_inv (fc m)" "in_features (fc m) = H * dv" "out_features (fc m) = D"
    and inm: "normalized_shape (norm m) = D"
    using inv by (simp_all add: MultiHeadAttention_inv_def H_def dk_def dv_def mult.commute)
  define Q1 where "Q1 = from_fn [B, T, H * dk] (fn3 (linear_fn (weight (W_Q m)) D (elt3 xq)))"
  define K1 where "K1 = from_fn [B, S, H * dk] (fn3 (linear_fn (weight (W_K m)) D (elt3 xk)))"
  define V1 where "V1 = from_fn [B, S, H * dv] (fn3 (linear_fn (weight (W_V m)) D (elt3 xv)))"
  have lq: "Linear_forward (W_Q m) xq = Inr Q1"
    using Linear_forward_3 [OF iq(1), of xq B T] sq by (simp add: iq Q1_def)
  have lk: "Linear_forward (W_K m) xk = Inr K1"
    using Linear_forward_3 [OF ik(1), of xk B S] sk by (simp add: ik K1_def)
  have lv: "Linear_forward (W_V m) xv = Inr V1"
    using Linear_forward_3 [OF iv(1), of xv B S] sv by (simp add: iv V1_def)
  define Q where "Q = from_fn [B, H, T, dk] (fn4 (split_fn dk (elt3 Q1)))"
  define K where "K = from_fn [B, H, S, dk] (fn4 (split_fn dk (elt3 K1)))"
  define V where "V = from_fn [B, H, S, dv] (fn4 (split_fn dv (elt3 V1)))"
  have hq: "split_heads Q1 B H dk = Inr Q"
    unfolding Q_def by (rule split_heads_3) (simp_all add: Q1_def pos(1) p)
  have hk: "split_heads K1 B H dk = Inr K"
    unfolding K_def by (rule split_heads_3) (simp_all add: K1_def pos(1) p)
  have hv: "split_heads V1 B H dv = Inr V"
    unfolding V_def by (rule split_heads_3) (simp_all add: V1_def pos(1) p)
  define C where "C = from_fn [B, H, T, dv] (fn4 (attn_context (elt4 Q) (elt4 K) (elt4 V) dk (real dk) S))"
  have sd: "ScaledDotProductAttention_forward Q K V (real dk) = Inr C"
    unfolding C_def by (rule ScaledDotProductAttention_forward_4) (simp_all add: Q_def K_def V_def p)
  define C' where "C' = from_fn [B, T, H * dv] (fn3 (merge_fn dv (elt4 C)))"
  have mg: "ebind (transpose_dims C 1 2) (\<lambda>ct. reshape ct [int B, -1, int (H * dv)]) = Inr C'"
    unfolding C'_def by (rule merge_heads_4) (simp_all add: C_def pos(1) p)
  define out where "out = from_fn [B, T, D] (fn3 (linear_fn (weight (fc m)) (H * dv) (elt3 C')))"
  have lo: "Linear_forward (fc m) C' = Inr out"
    using Linear_forward_3 [OF ifc(1), of C' B T] by (simp add: ifc C'_def out_def)
  define sm where "sm = from_fn [B, T, D]
      (fn3 (\<lambda>b t e. linear_fn (weight (fc m)) (H * dv) (elt3 C') b t e + elt3 xq b t e))"
  have ad: "add out xq = Inr sm"
    unfolding out_def sm_def by (rule add_from_fn_3) (rule sq)
  have nm: "LayerNorm_forward (norm m) sm = Inr (from_fn [B, T, D] (fn3 (layer_norm_fn (norm m) D
      (\<lambda>b t e. linear_fn (weight (fc m)) (H * dv) (elt3 C') b t e + elt3 xq b t e))))"
    unfolding sm_def by (rule LayerNorm_forward_3) (rule inm)
  have fw: "MultiHeadAttention_forward m xq xk xv = Inr (from_fn [B, T, D] (fn3 (layer_norm_fn (norm m) D
      (\<lambda>b t e. linear_fn (weight (fc m)) (H * dv) (elt3 C') b t e + elt3 xq b t e))))"
  proof -
    have "MultiHeadAttention_forward m xq xk xv =
        ebind (ebind (transpose_dims C 1 2) (\<lambda>ct. reshape ct [int B, -1, int (H * dv)]))
          (\<lambda>context'. ebind (Linear_forward (fc m) context') (\<lambda>output.
             ebind (add output xq) (\<lambda>s. LayerNorm_forward (norm m) s)))"
      unfolding MultiHeadAttention_forward_def
      using hq hk hv sd
      by (simp add: size0_3 [OF sq] lq lk lv H_def [symmetric] dk_def [symmetric] dv_def [symmetric]
          Let_def ebind_def del: of_nat_mult split: sum.splits)
    then show ?thesis by (simp add: mg lo ad nm del: of_nat_mult)
  qed
  have eq: "from_fn [B, T, D] (fn3 (layer_norm_fn (norm m) D
      (\<lambda>b t e. linear_fn (weight (fc m)) (H * dv) (elt3 C') b t e + elt3 xq b t e)))
    = from_fn [B, T, D] (fn3 (mha_fn m D S (elt3 xq) (elt3 xk) (elt3 xv)))"
  proof (rule from_fn_cong)
    fix idx assume "valid_idx [B, T, D] idx"
    then obtain b t e where idx: "idx = [b, t, e]" and lt: "b < B" "t < T" "e < D" by auto
    have hd: "\<And>h j d. h < H \<Longrightarrow> j < d \<Longrightarrow> h * d + j < H * d"
    proof -
      fix h j d :: nat assume "h < H" "j < d"
      then have "h * d + j < h * d + d" by simp
      also have "\<dots> = Suc h * d" by simp
      also have "\<dots> \<le> H * d" using \<open>h < H\<close> by (intro mult_le_mono1) simp
      finally show "h * d + j < H * d" .
    qed
    have eQ: "\<And>h l. h < H \<Longrightarrow> l < dk \<Longrightarrow>
        elt4 Q b h t l = split_fn dk (linear_fn (weight (W_Q m)) D (elt3 xq)) b h t l"
      using lt by (simp add: Q_def elt4_from_fn split_fn_def Q1_def elt3_from_fn hd)
    have eK: "\<And>h s l. h < H \<Longrightarrow> s < S \<Longrightarrow> l < dk \<Longrightarrow>
        elt4 K b h s l = split_fn dk (linear_fn (weight (W_K m)) D (elt3 xk)) b h s l"
      using lt by (simp add: K_def elt4_from_fn split_fn_def K1_def elt3_from_fn hd)
    have eV: "\<And>h s j. h < H \<Longrightarrow> s < S \<Longrightarrow> j < dv \<Longrightarrow>
        elt4 V b h s j = split_fn dv (linear_fn (weight (W_V m)) D (elt3 xv)) b h s j"
      using lt by (simp add: V_def elt4_from_fn split_fn_def V1_def elt3_from_fn hd)
    have eC: "\<And>h j. h < H \<Longrightarrow> j < dv \<Longrightarrow>
        elt4 C b h t j = attn_context
                  (split_fn dk (linear_fn (weight (W_Q m)) D (elt3 xq)))
                  (split_fn dk (linear_fn (weight (W_K m)) D (elt3 xk)))
                  (split_fn dv (linear_fn (weight (W_V m)) D (elt3 xv)))
                  dk (real dk) S b h t j"
    proof -
      fix h j assume h: "h < H" and j: "j < dv"
      have "elt4 C b h t j = attn_context (elt4 Q) (elt4 K) (elt4 V) dk (real dk) S b h t j"
        using lt h j by (simp add: C_def elt4_from_fn)
      also have "\<dots> = attn_context
                  (split_fn dk (linear_fn (weight (W_Q m)) D (elt3 xq)))
                  (split_fn dk (linear_fn (weight (W_K m)) D (elt3 xk)))
                  (split_fn dv (linear_fn (weight (W_V m)) D (elt3 xv)))
                  dk (real dk) S b h t j"
        by (rule attn_context_cong) (simp_all add: eQ eK eV h j)
      finally show "elt4 C b h t j = attn_context
                  (split_fn dk (linear_fn (weight (W_Q m)) D (elt3 xq)))
                  (split_fn dk (linear_fn (weight (W_K m)) D (elt3 xk)))
                  (split_fn dv (linear_fn (weight (W_V m)) D (elt3 xv)))
                  dk (real dk) S b h t j" .
    qed
    have eC': "\<And>c. c < H * dv \<Longrightarrow>
        elt3 C' b t c = merge_fn dv (attn_context
                  (split_fn dk (linear_fn (weight (W_Q m)) D (elt3 xq)))
                  (split_fn dk (linear_fn (weight (W_K m)) D (elt3 xk)))
                  (split_fn dv (linear_fn (weight (W_V m)) D (elt3 xv)))
                  dk (real dk) S) b t c"
    proof -
      fix c assume c: "c < H * dv"
      have "c div dv < H" using c p by (simp add: less_mult_imp_div_less)
      moreover have "c mod dv < dv" using p by simp
      ultimately show "elt3 C' b t c = merge_fn dv (attn_context
                  (split_fn dk (linear_fn (weight (W_Q m)) D (elt3 xq)))
                  (split_fn dk (linear_fn (weight (W_K m)) D (elt3 xk)))
                  (split_fn dv (linear_fn (weight (W_V m)) D (elt3 xv)))
                  dk (real dk) S) b t c"
        using lt c by (simp add: C'_def elt3_from_fn merge_fn_def eC)
    qed
    have eO: "\<And>e. e < D \<Longrightarrow>
        linear_fn (weight (fc m)) (H * dv) (elt3 C') b t e =
        linear_fn (weight (fc m)) (H * dv) (merge_fn dv (attn_context
                  (split_fn dk (linear_fn (weight (W_Q m)) D (elt3 xq)))
                  (split_fn dk (linear_fn (weight (W_K m)) D (elt3 xk)))
                  (split_fn dv (linear_fn (weight (W_V m)) D (elt3 xv)))
                  dk (real dk) S)) b t e"
      by (rule linear_fn_cong) (rule eC')
    have "layer_norm_fn (norm m) D
        (\<lambda>b t e. linear_fn (weight (fc m)) (H * dv) (elt3 C') b t e + elt3 xq b t e) b t e
      = mha_fn m D S (elt3 xq) (elt3 xk) (elt3 xv) b t e"
      unfolding mha_fn_def H_def [symmetric] dk_def [symmetric] dv_def [symmetric]
      by (rule layer_norm_fn_cong) (simp_all add: eO lt)
    then show "fn3 (layer_norm_fn (norm m) D
        (\<lambda>b t e. linear_fn (weight (fc m)) (H * dv) (elt3 C') b t e + elt3 xq b t e)) idx
      = fn3 (mha_fn m D S (elt3 xq) (elt3 xk) (elt3 xv)) idx"
      by (simp add: idx)
  qed
  show ?thesis using fw eq by simp
qed

lemma mha_fn_cong:
  assumes q: "\<And>e. e < D \<Longrightarrow> xq b t e = xq' b t e"
    and k: "\<And>s e. s < S \<Longrightarrow> e < D \<Longrightarrow> xk b s e = xk' b s e"
    and v: "\<And>s e. s < S \<Longrightarrow> e < D \<Longrightarrow> xv b s e = xv' b s e"
    and e: "e < D"
  shows "mha_fn m D S xq xk xv b t e = mha_fn m D S xq' xk' xv' b t e"
  unfolding mha_fn_def
proof (rule layer_norm_fn_cong [OF _ e])
  fix e' assume e': "e' < D"
  have "linear_fn (weight (fc m)) (n_heads m * d_v m)
          (merge_fn (d_v m)
            (attn_context (split_fn (d_k m) (linear_fn (weight (W_Q m)) D xq))
              (split_fn (d_k m) (linear_fn (weight (W_K m)) D xk))
              (split_fn (d_v m) (linear_fn (weight (W_V m)) D xv)) (d_k m) (real (d_k m)) S)) b t e'
      = linear_fn (weight (fc m)) (n_heads m * d_v m)
          (merge_fn (d_v m)
            (attn_context (split_fn (d_k m) (linear_fn (weight (W_Q m)) D xq'))
              (split_fn (d_k m) (linear_fn (weight (W_K m)) D xk'))
              (split_fn (d_v m) (linear_fn (weight (W_V m)) D xv')) (d_k m) (real (d_k m)) S)) b t e'"
  proof (rule linear_fn_cong)
    fix c
    show "merge_fn (d_v m)
            (attn_context (split_fn (d_k m) (linear_fn (weight (W_Q m)) D xq))
              (split_fn (d_k m) (linear_fn (weight (W_K m)) D xk))
              (split_fn (d_v m) (linear_fn (weight (W_V m)) D xv)) (d_k m) (real (d_k m)) S) b t c
        = merge_fn (d_v m)
            (attn_context (split_fn (d_k m) (linear_fn (weight (W_Q m)) D xq'))
              (split_fn (d_k m) (linear_fn (weight (W_K m)) D xk'))
              (split_fn (d_v m) (linear_fn (weight (W_V m)) D xv')) (d_k m) (real (d_k m)) S) b t c"
      unfolding merge_fn_def
    proof (rule attn_context_cong)
      fix l
      show "split_fn (d_k m) (linear_fn (weight (W_Q m)) D xq) b (c div d_v m) t l =
            split_fn (d_k m) (linear_fn (weight (W_Q m)) D xq') b (c div d_v m) t l"
        unfolding split_fn_def by (rule linear_fn_cong) (rule q)
    next
      fix s l assume "s < S"
      then show "split_fn (d_k m) (linear_fn (weight (W_K m)) D xk) b (c div d_v m) s l =
            split_fn (d_k m) (linear_fn (weight (W_K m)) D xk') b (c div d_v m) s l"
        unfolding split_fn_def by (intro linear_fn_cong k)
    next
      fix s assume "s < S"
      then show "split_fn (d_v m) (linear_fn (weight (W_V m)) D xv) b (c div d_v m) s (c mod d_v m) =
            split_fn (d_v m) (linear_fn (weight (W_V m)) D xv') b (c div d_v m) s (c mod d_v m)"
        unfolding split_fn_def by (intro linear_fn_cong v)
    qed
  qed
  then show "linear_fn (weight (fc m)) (n_heads m * d_v m)
          (merge_fn (d_v m)
            (attn_context (split_fn (d_k m) (linear_fn (weight (W_Q m)) D xq))
              (split_fn (d_k m) (linear_fn (weight (W_K m)) D xk))
              (split_fn (d_v m) (linear_fn (weight (W_V m)) D xv)) (d_k m) (real (d_k m)) S)) b t e' + xq b t e'
      = linear_fn (weight (fc m)) (n_heads m * d_v m)
          (merge_fn (d_v m)
            (attn_context (split_fn (d_k m) (linear_fn (weight (W_Q m)) D xq'))
              (split_fn (d_k m) (linear_fn (weight (W_K m)) D xk'))
              (split_fn (d_v m) (linear_fn (weight (W_V m)) D xv')) (d_k m) (real (d_k m)) S)) b t e' + xq' b t e'"
    by (simp add: q [OF e'])
qed

lemma reshape_3:
  "shape x = [a, c, h, w] \<Longrightarrow>
   reshape x [int a, int c, int (h * w)] = Inr \<lparr>shape = [a, c, h * w], data = data x\<rparr>"
  using infer_size_plain [of "[a, c, h * w]" "numel x"]
  by (simp add: reshape_def numel_def del: of_nat_mult)

lemma reshape_4:
  "reshape (from_fn [a, c, h * w] (fn3 g)) [int a, int c, int h, int w] =
     Inr (from_fn [a, c, h, w] (fn4 (\<lambda>i j k l. g i j (k * w + l))))"
  using infer_size_plain [of "[a, c, h, w]" "a * (c * (h * w))"]
  by (simp add: reshape_def numel_def from_fn_def)

lemma shape_at_4:
  "shape_at [a, c, h, w] 0 = Inr a" "shape_at [a, c, h, w] (Suc 0) = Inr c"
  "shape_at [a, c, h, w] 2 = Inr h" "shape_at [a, c, h, w] 3 = Inr w"
  by (simp_all add: shape_at_def)

lemma Multi_Heads_forward_4:
  assumes inv: "Multi_Heads_inv s" and sx: "shape x = [B, 512, H, W]" and pos: "0 < B"
  shows "Multi_Heads_forward s x = Inr (from_fn [B, 512, H, W] (fn4 (stack_fn s H W (elt4 x))))"
proof -
  have i1: "MultiHeadAttention_inv 512 (multi_head1 s)"
    and p1: "0 < n_heads (multi_head1 s)" "0 < d_k (multi_head1 s)" "0 < d_v (multi_head1 s)"
    and i2: "MultiHeadAttention_inv 512 (multi_head2 s)"
    and p2: "0 < n_heads (multi_head2 s)" "0 < d_k (multi_head2 s)" "0 < d_v (multi_head2 s)"
    using inv by (simp_all add: Multi_Heads_inv_def)
  define x1 where "x1 = \<lparr>shape = [B, 512, H * W], data = data x\<rparr>"
  have r1: "reshape x [int B, 512, int (H * W)] = Inr x1"
    unfolding x1_def using reshape_3 [OF sx] by simp
  define x2 where "x2 = from_fn [B, H * W, 512] (fn3 (\<lambda>i j k. elt x1 [i, k, j]))"
  have r2: "permute x1 [0, 2, 1] = Inr x2"
    unfolding x2_def by (rule permute_021) (simp add: x1_def)
  define y1 where "y1 = from_fn [B, H * W, 512] (fn3 (mha_fn (multi_head1 s) 512 (H * W) (elt3 x2) (elt3 x2) (elt3 x2)))"
  have r3: "MultiHeadAttention_forward (multi_head1 s) x2 x2 x2 = Inr y1"
    unfolding y1_def by (rule MultiHeadAttention_forward_3 [OF i1 _ _ _ pos p1]) (simp_all add: x2_def)
  define y2 where "y2 = from_fn [B, H * W, 512] (fn3 (mha_fn (multi_head2 s) 512 (H * W) (elt3 y1) (elt3 y1) (elt3 y1)))"
  have r4: "MultiHeadAttention_forward (multi_head2 s) y1 y1 y1 = Inr y2"
    unfolding y2_def by (rule MultiHeadAttention_forward_3 [OF i2 _ _ _ pos p2]) (simp_all add: y1_def)
  define x5 where "x5 = from_fn [B, 512, H * W] (fn3 (\<lambda>i j k. elt y2 [i, k, j]))"
  have r5: "permute y2 [0, 2, 1] = Inr x5"
    unfolding x5_def by (rule permute_021) (simp add: y2_def)
  have r6: "reshape x5 [int B, 512, int H, int W] =
              Inr (from_fn [B, 512, H, W] (fn4 (\<lambda>i j k l. elt y2 [i, k * W + l, j])))"
    unfolding x5_def using reshape_4 [of B 512 H W "\<lambda>i j k. elt y2 [i, k, j]"] by simp
  have fw: "Multi_Heads_forward s x =
              Inr (from_fn [B, 512, H, W] (fn4 (\<lambda>i j k l. elt y2 [i, k * W + l, j])))"
    unfolding Multi_Heads_forward_def
    using r1 r2 r3 r4 r5 r6 by (simp add: sx shape_at_4 Let_def del: of_nat_mult)
  have eq: "from_fn [B, 512, H, W] (fn4 (\<lambda>i j k l. elt y2 [i, k * W + l, j]))
          = from_fn [B, 512, H, W] (fn4 (stack_fn s H W (elt4 x)))"
  proof (rule from_fn_cong)
    fix idx assume "valid_idx [B, 512, H, W] idx"
    then obtain b c h w where idx: "idx = [b, c, h, w]"
      and lt: "b < B" "c < 512" "h < H" "w < W" by auto
    have hw: "h * W + w < H * W"
    proof -
      have "h * W + w < Suc h * W" using lt(4) by simp
      also have "\<dots> \<le> H * W" using lt(3) by (intro mult_le_mono1) simp
      finally show ?thesis .
    qed
    have e2: "\<And>p e. p < H * W \<Longrightarrow> e < 512 \<Longrightarrow> elt3 x2 b p e = tokens_fn W (elt4 x) b p e"
    proof -
      fix p e assume p: "p < H * W" and e: "e < (512::nat)"
      have "elt3 x2 b p e = elt x1 [b, e, p]"
        using lt(1) p e by (simp add: x2_def elt3_from_fn)
      also have "\<dots> = data x ! (b * (512 * (H * W)) + (e * (H * W) + p))"
        by (simp add: x1_def elt_def)
      also have "\<dots> = tokens_fn W (elt4 x) b p e"
        by (simp add: tokens_fn_def elt4_def elt_def sx)
      finally show "elt3 x2 b p e = tokens_fn W (elt4 x) b p e" .
    qed
    have e3: "\<And>p e. p < H * W \<Longrightarrow> e < 512 \<Longrightarrow>
        elt3 y1 b p e = mha_fn (multi_head1 s) 512 (H * W)
          (tokens_fn W (elt4 x)) (tokens_fn W (elt4 x)) (tokens_fn W (elt4 x)) b p e"
    proof -
      fix p e assume p: "p < H * W" and e: "e < (512::nat)"
      have "elt3 y1 b p e = mha_fn (multi_head1 s) 512 (H * W) (elt3 x2) (elt3 x2) (elt3 x2) b p e"
        using lt(1) p e by (simp add: y1_def elt3_from_fn)
      also have "\<dots> = mha_fn (multi_head1 s) 512 (H * W)
          (tokens_fn W (elt4 x)) (tokens_fn W (elt4 x)) (tokens_fn W (elt4 x)) b p e"
        by (rule mha_fn_cong) (simp_all add: e2 p e)
      finally show "elt3 y1 b p e = mha_fn (multi_head1 s) 512 (H * W)
          (tokens_fn W (elt4 x)) (tokens_fn W (elt4 x)) (tokens_fn W (elt4 x)) b p e" .
    qed
    have "elt y2 [b, h * W + w, c] = elt3 y2 b (h * W + w) c" by (simp add: elt3_def)
    also have "\<dots> = mha_fn (multi_head2 s) 512 (H * W) (elt3 y1) (elt3 y1) (elt3 y1) b (h * W + w) c"
      using lt(1,2) hw by (simp add: y2_def elt3_from_fn)
    also have "\<dots> = stack_fn s H W (elt4 x) b c h w"
      unfolding stack_fn_def Let_def by (rule mha_fn_cong) (simp_all add: e3 hw lt(2))
    finally show "fn4 (\<lambda>i j k l. elt y2 [i, k * W + l, j]) idx = fn4 (stack_fn s H W (elt4 x)) idx"
      by (simp add: idx)
  qed
  show ?thesis using fw eq by simp
qed

lemma Linear_forward_mismatch:
  assumes "Linear_inv l" "shape x \<noteq> []" "last (shape x) \<noteq> in_features l"
  shows "Linear_forward l x = Inl RuntimeError"
proof -
  have w: "shape (weight l) = [out_features l, in_features l]"
    using assms(1) by (simp add: Linear_inv_def)
  show ?thesis
    unfolding Linear_forward_def
    using assms(2,3) by (simp add: transpose_dims_01 [OF w] matmul_def Let_def)
qed

lemma MultiHeadAttention_forward_mismatch:
  assumes "MultiHeadAttention_inv D m" "shape xq \<noteq> []" "last (shape xq) \<noteq> D"
  shows "MultiHeadAttention_forward m xq xk xv = Inl RuntimeError"
proof -
  have "Linear_forward (W_Q m) xq = Inl RuntimeError"
    using assms by (intro Linear_forward_mismatch) (simp_all add: MultiHeadAttention_inv_def)
  moreover obtain n where "size0 xq = Inr n"
    using assms(2) by (cases "shape xq") (simp_all add: size0_def)
  ultimately show ?thesis by (simp add: MultiHeadAttention_forward_def Let_def)
qed

lemma MultiHeadAttention_forward_batch0:
  assumes "MultiHeadAttention_inv D m" "shape xq = [0, T, D]"
  shows "MultiHeadAttention_forward m xq xk xv = Inl RuntimeError"
proof -
  have iq: "Linear_inv (W_Q m)" "in_features (W_Q m) = D"
    using assms(1) by (simp_all add: MultiHeadAttention_inv_def)
  have "Linear_forward (W_Q m) xq =
          Inr (from_fn [0, T, out_features (W_Q m)] (fn3 (linear_fn (weight (W_Q m)) D (elt3 xq))))"
    using Linear_forward_3 [OF iq(1), of xq 0 T] assms(2) by (simp add: iq(2))
  then show ?thesis
    by (simp add: MultiHeadAttention_forward_def Let_def size0_3 [OF assms(2)] split_heads_def
        view_def reshape_def infer_size_4)
qed

lemma Multi_Heads_forward_mismatch:
  assumes "Multi_Heads_inv s" "shape x = [B, C, H, W]" "C \<noteq> 512"
  shows "Multi_Heads_forward s x = Inl RuntimeError"
proof -
  define x2 where "x2 = from_fn [B, H * W, C] (fn3 (\<lambda>i j k. elt \<lparr>shape = [B, C, H * W], data = data x\<rparr> [i, k, j]))"
  have r2: "permute \<lparr>shape = [B, C, H * W], data = data x\<rparr> [0, 2, 1] = Inr x2"
    unfolding x2_def by (rule permute_021) simp
  have "MultiHeadAttention_forward (multi_head1 s) x2 x2 x2 = Inl RuntimeError"
    using assms(1,3) by (intro MultiHeadAttention_forward_mismatch [of 512])
      (simp_all add: Multi_Heads_inv_def x2_def)
  then show ?thesis
    unfolding Multi_Heads_forward_def
    using r2 by (simp add: assms(2) shape_at_4 Let_def reshape_3 [OF assms(2)] del: of_nat_mult)
qed

lemma Multi_Heads_forward_batch0:
  assumes "Multi_Heads_inv s" "shape x = [0, 512, H, W]"
  shows "Multi_Heads_forward s x = Inl RuntimeError"
proof -
  define x2 where "x2 = from_fn [0, H * W, 512] (fn3 (\<lambda>i j k. elt \<lparr>shape = [0, 512, H * W], data = data x\<rparr> [i, k, j]))"
  have r2: "permute \<lparr>shape = [0, 512, H * W], data = data x\<rparr> [0, 2, 1] = Inr x2"
    unfolding x2_def by (rule permute_021) simp
  have "MultiHeadAttention_forward (multi_head1 s) x2 x2 x2 = Inl RuntimeError"
    using assms(1) by (intro MultiHeadAttention_forward_batch0 [of 512 _ _ "H * W"])
      (simp_all add: Multi_Heads_inv_def x2_def)
  then show ?thesis
    unfolding Multi_Heads_forward_def
    using r2 reshape_3 [OF assms(2)] by (simp add: assms(2) shape_at_4 Let_def del: of_nat_mult)
qed

lemma tensor_ok_zeros: "tensor_ok (zeros s)"
  by (simp add: zeros_def tensor_ok_def)

lemma shape_zeros: "shape (zeros s) = s"
  by (simp add: zeros_def)

lemma Linear_inv_zero: "Linear_inv (Linear_zero i out)"
  by (simp add: Linear_inv_def Linear_zero_def zeros_def tensor_ok_def)

lemma LayerNorm_inv_init: "LayerNorm_inv (LayerNorm_init d)"
  by (simp add: LayerNorm_inv_def LayerNorm_init_def zeros_def ones_def tensor_ok_def)

lemma MultiHeadAttention_inv_zero:
  "MultiHeadAttention_inv d_model (MultiHeadAttention_zero d_model dk dv h)"
  by (simp add: MultiHeadAttention_inv_def MultiHeadAttention_zero_def Linear_inv_zero
      LayerNorm_inv_init) (simp add: Linear_zero_def LayerNorm_init_def)

lemma Multi_Heads_inv_zero: "Multi_Heads_inv Multi_Heads_zero"
  by (simp add: Multi_Heads_inv_def Multi_Heads_zero_def MultiHeadAttention_inv_zero)
     (simp add: MultiHeadAttention_zero_def)

lemma linear_fn_ptok: "linear_fn w n (ptok \<pi> x) = ptok \<pi> (linear_fn w n x)"
  by (intro ext) (simp add: linear_fn_def ptok_def)

lemma split_fn_ptok: "split_fn d (ptok \<pi> y) = ptok4 \<pi> (split_fn d y)"
  by (intro ext) (simp add: split_fn_def ptok_def ptok4_def)

lemma merge_fn_ptok4: "merge_fn d (ptok4 \<pi> c) = ptok \<pi> (merge_fn d c)"
  by (intro ext) (simp add: merge_fn_def ptok_def ptok4_def)

lemma attn_score_ptok4:
  "attn_score (ptok4 \<pi> q) (ptok4 \<pi> k) n dk b h t s = attn_score q k n dk b h (\<pi> t) (\<pi> s)"
  by (simp add: attn_score_def ptok4_def)

lemma attn_weight_ptok4:
  assumes "bij_betw \<pi> {..<S} {..<S}"
  shows "attn_weight (ptok4 \<pi> q) (ptok4 \<pi> k) n dk S b h t s = attn_weight q k n dk S b h (\<pi> t) (\<pi> s)"
proof -
  have "(\<Sum>s'<S. exp (attn_score q k n dk b h (\<pi> t) (\<pi> s'))) =
        (\<Sum>s'<S. exp (attn_score q k n dk b h (\<pi> t) s'))"
    by (rule sum.reindex_bij_betw [OF assms])
  then show ?thesis by (simp add: attn_weight_def attn_score_ptok4)
qed

lemma attn_context_ptok4:
  assumes "bij_betw \<pi> {..<S} {..<S}"
  shows "attn_context (ptok4 \<pi> q) (ptok4 \<pi> k) (ptok4 \<pi> v) n dk S = ptok4 \<pi> (attn_context q k v n dk S)"
proof (intro ext)
  fix b h t j
  have "attn_context (ptok4 \<pi> q) (ptok4 \<pi> k) (ptok4 \<pi> v) n dk S b h t j =
        (\<Sum>s<S. attn_weight q k n dk S b h (\<pi> t) (\<pi> s) * v b h (\<pi> s) j)"
    by (simp add: attn_context_def attn_weight_ptok4 [OF assms]) (simp add: ptok4_def)
  also have "\<dots> = (\<Sum>s<S. attn_weight q k n dk S b h (\<pi> t) s * v b h s j)"
    by (rule sum.reindex_bij_betw [OF assms])
  also have "\<dots> = ptok4 \<pi> (attn_context q k v n dk S) b h t j"
    by (simp add: attn_context_def ptok4_def)
  finally show "attn_context (ptok4 \<pi> q) (ptok4 \<pi> k) (ptok4 \<pi> v) n dk S b h t j =
        ptok4 \<pi> (attn_context q k v n dk S) b h t j" .
qed

lemma add_ptok: "(\<lambda>b t e. ptok \<pi> f b t e + ptok \<pi> x b t e) = ptok \<pi> (\<lambda>b t e. f b t e + x b t e)"
  by (intro ext) (simp add: ptok_def)

lemma layer_norm_fn_ptok: "layer_norm_fn nrm n (ptok \<pi> g) = ptok \<pi> (layer_norm_fn nrm n g)"
  by (intro ext) (simp add: layer_norm_fn_def ptok_def)

lemma mha_fn_ptok:
  assumes "bij_betw \<pi> {..<S} {..<S}"
  shows "mha_fn m D S (ptok \<pi> x) (ptok \<pi> x) (ptok \<pi> x) = ptok \<pi> (mha_fn m D S x x x)"
  unfolding mha_fn_def
  by (simp only: linear_fn_ptok split_fn_ptok attn_context_ptok4 [OF assms] merge_fn_ptok4
      add_ptok layer_norm_fn_ptok)

lemma shape_permute_tokens: "shape (permute_tokens \<pi> x) = shape x"
  by (simp add: permute_tokens_def split: list.splits)

lemma permute_tokens_4:
  "shape x = [B, C, H, W] \<Longrightarrow>
   permute_tokens \<pi> x =
     from_fn [B, C, H, W]
       (fn4 (\<lambda>b c h w. elt4 x b c (\<pi> (h * W + w) div W) (\<pi> (h * W + w) mod W)))"
  by (simp add: permute_tokens_def elt4_def)

lemma stack_fn_permute_tokens:
  assumes sx: "shape x = [B, 512, H, W]"
    and bij: "bij_betw \<pi> {..<H * W} {..<H * W}"
    and lt: "b < B" "c < 512" "h < H" "w < W"
  shows "stack_fn s H W (elt4 (permute_tokens \<pi> x)) b c h w =
         stack_fn s H W (elt4 x) b c (\<pi> (h * W + w) div W) (\<pi> (h * W + w) mod W)"
proof -
  define tok where "tok = tokens_fn W (elt4 x)"
  define tok' where "tok' = tokens_fn W (elt4 (permute_tokens \<pi> x))"
  define y1 where "y1 = mha_fn (multi_head1 s) 512 (H * W) tok tok tok"
  define y2 where "y2 = mha_fn (multi_head2 s) 512 (H * W) y1 y1 y1"
  have Wpos: "0 < W" using lt(4) by simp
  have hw: "h * W + w < H * W"
  proof -
    have "h * W + w < Suc h * W" using lt(4) by simp
    also have "\<dots> \<le> H * W" using lt(3) by (intro mult_le_mono1) simp
    finally show ?thesis .
  qed
  have pi_lt: "\<And>p. p < H * W \<Longrightarrow> \<pi> p < H * W"
    using bij by (auto simp: bij_betw_def)
  have t': "\<And>q e. q < H * W \<Longrightarrow> e < 512 \<Longrightarrow> tok' b q e = ptok \<pi> tok b q e"
  proof -
    fix q e assume q: "q < H * W" and e: "e < (512::nat)"
    have qd: "q div W < H" using q Wpos by (simp add: less_mult_imp_div_less)
    have qm: "q mod W < W" using Wpos by simp
    have "tok' b q e = elt4 (permute_tokens \<pi> x) b e (q div W) (q mod W)"
      by (simp add: tok'_def tokens_fn_def)
    also have "\<dots> = elt4 x b e (\<pi> (q div W * W + q mod W) div W) (\<pi> (q div W * W + q mod W) mod W)"
      using lt(1) e qd qm by (simp add: permute_tokens_4 [OF sx] elt4_from_fn)
    also have "\<dots> = ptok \<pi> tok b q e"
      by (simp add: ptok_def tok_def tokens_fn_def)
    finally show "tok' b q e = ptok \<pi> tok b q e" .
  qed
  have e1: "\<And>q e. q < H * W \<Longrightarrow> e < 512 \<Longrightarrow>
      mha_fn (multi_head1 s) 512 (H * W) tok' tok' tok' b q e = ptok \<pi> y1 b q e"
  proof -
    fix q e assume q: "q < H * W" and e: "e < (512::nat)"
    have "mha_fn (multi_head1 s) 512 (H * W) tok' tok' tok' b q e =
          mha_fn (multi_head1 s) 512 (H * W) (ptok \<pi> tok) (ptok \<pi> tok) (ptok \<pi> tok) b q e"
      by (rule mha_fn_cong) (simp_all add: t' q e)
    then show "mha_fn (multi_head1 s) 512 (H * W) tok' tok' tok' b q e = ptok \<pi> y1 b q e"
      by (simp add: mha_fn_ptok [OF bij] y1_def)
  qed
  have "stack_fn s H W (elt4 (permute_tokens \<pi> x)) b c h w =
        mha_fn (multi_head2 s) 512 (H * W)
          (mha_fn (multi_head1 s) 512 (H * W) tok' tok' tok')
          (mha_fn (multi_head1 s) 512 (H * W) tok' tok' tok')
          (mha_fn (multi_head1 s) 512 (H * W) tok' tok' tok') b (h * W + w) c"
    by (simp add: stack_fn_def Let_def tok'_def)
  also have "\<dots> = mha_fn (multi_head2 s) 512 (H * W) (ptok \<pi> y1) (ptok \<pi> y1) (ptok \<pi> y1) b (h * W + w) c"
    by (rule mha_fn_cong) (simp_all add: e1 hw lt(2))
  also have "\<dots> = y2 b (\<pi> (h * W + w)) c"
    by (simp add: mha_fn_ptok [OF bij] y2_def ptok_def)
  also have "\<dots> = stack_fn s H W (elt4 x) b c (\<pi> (h * W + w) div W) (\<pi> (h * W + w) mod W)"
    by (simp add: stack_fn_def Let_def tok_def y1_def y2_def)
  finally show ?thesis .
qed

lemma elt_zeros: "valid_idx s idx \<Longrightarrow> elt (zeros s) idx = 0"
  by (simp add: zeros_def elt_def ravel_lt)

lemma linear_fn_zeros: "c < out \<Longrightarrow> linear_fn (zeros [out, n]) n x b t c = 0"
  by (simp add: linear_fn_def elt_zeros)

lemma mha_fn_zero_input:
  assumes "b < B" "t < T" "e < D"
  shows "mha_fn (MultiHeadAttention_zero D dk dv h) D S
           (elt3 (zeros [B, T, D])) xk xv b t e = 0"
proof -
  have "mha_fn (MultiHeadAttention_zero D dk dv h) D S (elt3 (zeros [B, T, D])) xk xv b t e
      = layer_norm_fn (LayerNorm_init D) D (\<lambda>b t e. 0) b t e"
    unfolding mha_fn_def
  proof (rule trans [OF _ layer_norm_fn_cong [OF _ assms(3)]])
    show "layer_norm_fn (norm (MultiHeadAttention_zero D dk dv h)) D
     (\<lambda>b t e.
         linear_fn (weight (fc (MultiHeadAttention_zero D dk dv h)))
          (n_heads (MultiHeadAttention_zero D dk dv h) * d_v (MultiHeadAttention_zero D dk dv h))
          (merge_fn (d_v (MultiHeadAttention_zero D dk dv h))
            (attn_context
              (split_fn (d_k (MultiHeadAttention_zero D dk dv h))
                (linear_fn (weight (W_Q (MultiHeadAttention_zero D dk dv h))) D (elt3 (zeros [B, T, D]))))
              (split_fn (d_k (MultiHeadAttention_zero D dk dv h))
                (linear_fn (weight (W_K (MultiHeadAttention_zero D dk dv h))) D xk))
              (split_fn (d_v (MultiHeadAttention_zero D dk dv h))
                (linear_fn (weight (W_V (MultiHeadAttention_zero D dk dv h))) D xv))
              (d_k (MultiHeadAttention_zero D dk dv h)) (real (d_k (MultiHeadAttention_zero D dk dv h))) S))
          b t e +
         elt3 (zeros [B, T, D]) b t e) b t e
      = layer_norm_fn (LayerNorm_init D) D
     (\<lambda>b t e.
         linear_fn (zeros [D, h * dv]) (h * dv)
          (merge_fn dv
            (attn_context
              (split_fn dk (linear_fn (zeros [dk * h, D]) D (elt3 (zeros [B, T, D]))))
              (split_fn dk (linear_fn (zeros [dk * h, D]) D xk))
              (split_fn dv (linear_fn (zeros [dv * h, D]) D xv))
              dk (real dk) S))
          b t e +
         elt3 (zeros [B, T, D]) b t e) b t e"
      by (simp add: MultiHeadAttention_zero_def Linear_zero_def)
  next
    fix e' assume "e' < D"
    then show "linear_fn (zeros [D, h * dv]) (h * dv)
          (merge_fn dv
            (attn_context
              (split_fn dk (linear_fn (zeros [dk * h, D]) D (elt3 (zeros [B, T, D]))))
              (split_fn dk (linear_fn (zeros [dk * h, D]) D xk))
              (split_fn dv (linear_fn (zeros [dv * h, D]) D xv))
              dk (real dk) S))
          b t e' + elt3 (zeros [B, T, D]) b t e' = 0"
      using assms(1,2) by (simp add: linear_fn_zeros elt3_def elt_zeros)
  qed
  also have "\<dots> = 0"
    using assms(3) by (simp add: layer_norm_fn_def LayerNorm_init_def elt_zeros)
  finally show ?thesis .
qed

section \<open>Scaled dot-product attention\<close>

text \<open>
  Claim C1.  For query, key and value tensors of matching head-split shape and a positive
  scalar \<open>d_k\<close>, \<open>ScaledDotProductAttention.forward\<close> returns
  \<open>softmax(Q K\<^sup>T / sqrt(d_k)) V\<close>, the softmax taken over the key axis separately for
  every batch element, head and query position.  The function has no module state among
  its arguments and returns a value only.
\<close>

theorem ScaledDotProductAttention_forward_spec:
  assumes "shape Q = [B, H, T, n]" "shape K = [B, H, S, n]" "shape V = [B, H, S, m]" "0 < dk"
  shows "\<exists>out. ScaledDotProductAttention_forward Q K V dk = Inr out \<and>
           shape out = [B, H, T, m] \<and> tensor_ok out \<and>
           (\<forall>b<B. \<forall>h<H. \<forall>t<T. \<forall>j<m.
              elt out [b, h, t, j] = attn_context (elt4 Q) (elt4 K) (elt4 V) n dk S b h t j)"
  by (simp add: ScaledDotProductAttention_forward_4 [OF assms])

theorem ScaledDotProductAttention_forward_spec_witness:
  "ScaledDotProductAttention_forward q_one k_one v_one 1 = Inr \<lparr>shape = [1, 1, 1, 1], data = [3]\<rparr>"
proof -
  have "\<exists>out. ScaledDotProductAttention_forward q_one k_one v_one 1 = Inr out \<and>
           shape out = [1, 1, 1, 1] \<and> tensor_ok out \<and>
           (\<forall>b<1. \<forall>h<1. \<forall>t<1. \<forall>j<1.
              elt out [b, h, t, j] = attn_context (elt4 q_one) (elt4 k_one) (elt4 v_one) 1 1 1 b h t j)"
    by (rule ScaledDotProductAttention_forward_spec) (simp_all add: q_one_def k_one_def v_one_def)
  then obtain out where r: "ScaledDotProductAttention_forward q_one k_one v_one 1 = Inr out"
    and s: "shape out = [1, 1, 1, 1]" and ok: "tensor_ok out"
    and e: "elt out [0, 0, 0, 0] = attn_context (elt4 q_one) (elt4 k_one) (elt4 v_one) 1 1 1 0 0 0 0"
    by auto
  have "attn_context (elt4 q_one) (elt4 k_one) (elt4 v_one) 1 1 1 0 0 0 0 = 3"
    by (simp add: attn_context_def attn_weight_def elt4_def elt_def v_one_def)
  then have "data out ! 0 = 3" using e s by (simp add: elt_def)
  moreover have "length (data out) = 1" using ok s by (simp add: tensor_ok_def)
  ultimately have "data out = [3]" by (cases "data out") auto
  then have "out = \<lparr>shape = [1, 1, 1, 1], data = [3]\<rparr>" using s by (cases out) simp
  then show ?thesis using r by simp
qed

text \<open>
  Claim C7 says that the attention weights sum to one along the key axis for every
  \<open>Q\<close>, \<open>K\<close>, \<open>V\<close> and \<open>d_k\<close>.  With no key position the weight tensor has no entry
  and the sum over the key axis of its one query row is zero.
\<close>

theorem sdpa_attn_empty_keys:
  "sdpa_attn q_one k_none 1 = Inr \<lparr>shape = [1, 1, 1, 0], data = []\<rparr> \<and>
   (\<Sum>s<0. elt \<lparr>shape = [1, 1, 1, 0], data = []\<rparr> [0, 0, 0, s]) = 0"
proof -
  have "sdpa_attn q_one k_none 1 =
          Inr (from_fn [1, 1, 1, 0] (fn4 (attn_weight (elt4 q_one) (elt4 k_none) 1 1 0)))"
    by (rule sdpa_attn_4) (simp_all add: q_one_def k_none_def)
  then show ?thesis by (simp add: from_fn_def)
qed

text \<open>
  Claim C7, amended.  For \<open>Q\<close> and \<open>K\<close> of matching head-split shape with at least one
  key position and for positive \<open>d_k\<close>, the attention weights sum to one along the key
  axis, for every batch element, head and query position.
\<close>

theorem sdpa_attn_rows_sum_to_one:
  assumes "shape Q = [B, H, T, n]" "shape K = [B, H, S, n]" "0 < dk" "0 < S"
  shows "\<exists>attn. sdpa_attn Q K dk = Inr attn \<and> shape attn = [B, H, T, S] \<and>
           (\<forall>b<B. \<forall>h<H. \<forall>t<T. (\<Sum>s<S. elt attn [b, h, t, s]) = 1)"
  by (simp add: sdpa_attn_4 [OF assms(1,2,3)] attn_weight_sum [OF assms(4)])

theorem sdpa_attn_rows_sum_to_one_witness:
  "\<exists>attn. sdpa_attn q_one k_one 1 = Inr attn \<and> shape attn = [1, 1, 1, 1] \<and>
           (\<Sum>s<1. elt attn [0, 0, 0, s]) = 1"
proof -
  have "\<exists>attn. sdpa_attn q_one k_one 1 = Inr attn \<and> shape attn = [1, 1, 1, 1] \<and>
           (\<forall>b<1. \<forall>h<1. \<forall>t<1. (\<Sum>s<1. elt attn [b, h, t, s]) = 1)"
    by (rule sdpa_attn_rows_sum_to_one) (simp_all add: q_one_def k_one_def)
  then show ?thesis by auto
qed


section \<open>Multi-head attention\<close>

text \<open>
  Claim C2 says that for every \<open>inputQ\<close>, \<open>inputK\<close>, \<open>inputV\<close> of shape
  \<open>(batch, tokens, d_model)\<close> \<open>MultiHeadAttention.forward\<close> returns a tensor of the shape
  of \<open>inputQ\<close>.  For an empty batch the \<open>view\<close> that splits the heads cannot infer the
  token axis and the call raises.
\<close>

theorem MultiHeadAttention_forward_batch0_fails:
  "MultiHeadAttention_inv 512 (MultiHeadAttention_zero 512 64 64 8) \<and>
   shape (zeros [0, 1, 512]) = [0, 1, 512] \<and>
   MultiHeadAttention_forward (MultiHeadAttention_zero 512 64 64 8)
     (zeros [0, 1, 512]) (zeros [0, 1, 512]) (zeros [0, 1, 512]) = Inl RuntimeError"
  by (simp add: MultiHeadAttention_inv_zero shape_zeros
      MultiHeadAttention_forward_batch0 [OF MultiHeadAttention_inv_zero])

text \<open>
  Claim C2, amended.  For a module with positive \<open>n_heads\<close>, \<open>d_k\<close> and \<open>d_v\<close> and
  inputs of shape \<open>(batch, tokens, d_model)\<close> with \<open>batch \<ge> 1\<close>,
  \<open>MultiHeadAttention.forward\<close> returns the composition \<open>mha_fn\<close>: bias-free linear
  projections of the three inputs, the split into heads, scaled dot-product attention for
  every batch element and head, the recombination of the heads, a bias-free linear
  projection back to \<open>d_model\<close>, the residual \<open>inputQ\<close> and layer normalisation over the
  embedding axis; the result has the shape of \<open>inputQ\<close>.
\<close>

theorem MultiHeadAttention_forward_composition:
  assumes "MultiHeadAttention_inv D m"
    and "shape xq = [B, T, D]" "shape xk = [B, S, D]" "shape xv = [B, S, D]"
    and "0 < B" "0 < n_heads m" "0 < d_k m" "0 < d_v m"
  shows "\<exists>out. MultiHeadAttention_forward m xq xk xv = Inr out \<and>
           shape out = shape xq \<and> tensor_ok out \<and>
           (\<forall>b<B. \<forall>t<T. \<forall>e<D.
              elt out [b, t, e] = mha_fn m D S (elt3 xq) (elt3 xk) (elt3 xv) b t e)"
  by (simp add: MultiHeadAttention_forward_3 [OF assms] assms(2))

theorem MultiHeadAttention_forward_composition_witness:
  "\<exists>out. MultiHeadAttention_forward (MultiHeadAttention_zero 512 64 64 8)
           (zeros [2, 49, 512]) (zeros [2, 49, 512]) (zeros [2, 49, 512]) = Inr out \<and>
         shape out = [2, 49, 512] \<and> tensor_ok out \<and> elt out [1, 48, 511] = 0"
proof -
  have "\<exists>out. MultiHeadAttention_forward (MultiHeadAttention_zero 512 64 64 8)
           (zeros [2, 49, 512]) (zeros [2, 49, 512]) (zeros [2, 49, 512]) = Inr out \<and>
         shape out = shape (zeros [2, 49, 512]) \<and> tensor_ok out \<and>
         (\<forall>b<2. \<forall>t<49. \<forall>e<512. elt out [b, t, e] = mha_fn (MultiHeadAttention_zero 512 64 64 8) 512 49
            (elt3 (zeros [2, 49, 512])) (elt3 (zeros [2, 49, 512])) (elt3 (zeros [2, 49, 512])) b t e)"
    by (rule MultiHeadAttention_forward_composition [OF MultiHeadAttention_inv_zero])
       (simp_all add: shape_zeros MultiHeadAttention_zero_def)
  then obtain out where o: "MultiHeadAttention_forward (MultiHeadAttention_zero 512 64 64 8)
           (zeros [2, 49, 512]) (zeros [2, 49, 512]) (zeros [2, 49, 512]) = Inr out"
      "shape out = [2, 49, 512]" "tensor_ok out"
      "elt out [1, 48, 511] = mha_fn (MultiHeadAttention_zero 512 64 64 8) 512 49
            (elt3 (zeros [2, 49, 512])) (elt3 (zeros [2, 49, 512])) (elt3 (zeros [2, 49, 512])) 1 48 511"
    by (auto simp: shape_zeros)
  have "mha_fn (MultiHeadAttention_zero 512 64 64 8) 512 49
            (elt3 (zeros [2, 49, 512])) (elt3 (zeros [2, 49, 512])) (elt3 (zeros [2, 49, 512])) 1 48 511 = 0"
    by (rule mha_fn_zero_input) simp_all
  then show ?thesis using o by simp
qed

section \<open>The refinement backbone\<close>

text \<open>
  Claim C10.  Construction of \<open>CIF_Multihead\<close> over a backbone whose \<open>output_shape()\<close> has
  no entry \<open>"CIF"\<close> fails with a missing-key error, at construction; construction
  succeeds exactly when the upstream object is a \<open>Backbone\<close> whose \<open>output_shape()\<close> has
  the entry \<open>"CIF"\<close>.
\<close>

theorem CIF_Multihead_init_outcome:
  "(output_shape b ''CIF'' = None \<longrightarrow> CIF_Multihead_init (IsBackbone b) mh = Inl KeyError) \<and>
   ((\<exists>self. CIF_Multihead_init bottom_up mh = Inr self) \<longleftrightarrow>
    (\<exists>b'. bottom_up = IsBackbone b' \<and> ''CIF'' \<in> dom (output_shape b')))"
  by (auto simp: CIF_Multihead_init_def split: pyobject.splits option.splits)

theorem CIF_Multihead_init_outcome_witness:
  "output_shape upstream_unnamed ''CIF'' = None \<and>
   CIF_Multihead_init (IsBackbone upstream_unnamed) Multi_Heads_zero = Inl KeyError \<and>
   (\<exists>self. CIF_Multihead_init (IsBackbone upstream_tensor) Multi_Heads_zero = Inr self) \<and>
   ''CIF'' \<in> dom (output_shape upstream_tensor)"
proof -
  have a: "output_shape upstream_unnamed ''CIF'' = None"
    by (simp add: upstream_unnamed_def)
  have b: "''CIF'' \<in> dom (output_shape upstream_tensor)"
    by (simp add: upstream_tensor_def)
  from a CIF_Multihead_init_outcome [of upstream_unnamed Multi_Heads_zero]
  have c: "CIF_Multihead_init (IsBackbone upstream_unnamed) Multi_Heads_zero = Inl KeyError"
    by blast
  from b CIF_Multihead_init_outcome [of upstream_tensor Multi_Heads_zero "IsBackbone upstream_tensor"]
  have d: "\<exists>self. CIF_Multihead_init (IsBackbone upstream_tensor) Multi_Heads_zero = Inr self"
    by blast
  from a b c d show ?thesis by blast
qed

text \<open>
  Claim C5.  For a conforming upstream backbone, \<open>output_shape()\<close> of the constructed
  \<open>CIF_Multihead\<close> is the one-entry mapping from \<open>"CIF_MultiHead"\<close> to a \<open>ShapeSpec\<close>
  with the channel count and stride of the upstream entry \<open>"CIF"\<close>, whatever the
  attention stack is.
\<close>

theorem CIF_Multihead_output_shape_forwards:
  assumes "output_shape b ''CIF'' = Some spec"
  shows "\<exists>self. CIF_Multihead_init (IsBackbone b) mh = Inr self \<and>
           CIF_Multihead_output_shape self =
             [''CIF_MultiHead'' \<mapsto>
                \<lparr>channels = channels spec, height = None, width = None, stride = stride spec\<rparr>] \<and>
           dom (CIF_Multihead_output_shape self) = {''CIF_MultiHead''}"
  using assms by (simp add: CIF_Multihead_init_def CIF_Multihead_output_shape_def)

theorem CIF_Multihead_output_shape_forwards_witness:
  "\<exists>self. CIF_Multihead_init (IsBackbone upstream_tensor) Multi_Heads_zero = Inr self \<and>
           CIF_Multihead_output_shape self =
             [''CIF_MultiHead'' \<mapsto>
                \<lparr>channels = Some 512, height = None, width = None, stride = Some 32\<rparr>] \<and>
           dom (CIF_Multihead_output_shape self) = {''CIF_MultiHead''}"
proof -
  have "output_shape upstream_tensor ''CIF'' =
          Some \<lparr>channels = Some 512, height = None, width = None, stride = Some 32\<rparr>"
    by (simp add: upstream_tensor_def)
  from CIF_Multihead_output_shape_forwards [OF this, of Multi_Heads_zero]
  show ?thesis by simp
qed

text \<open>
  Claim C4 says that \<open>CIF_Multihead.forward\<close> fails with a missing-key error when the
  upstream output collection omits the designated name.  The code never looks a name up
  in the upstream output: over a backbone that returns an empty dictionary it fails
  with an attribute error.
\<close>

theorem CIF_Multihead_forward_no_KeyError:
  "CIF_Multihead_init (IsBackbone upstream_dict) Multi_Heads_zero = Inr refinement_over_dict \<and>
   forward (features1 refinement_over_dict) (zeros [1, 3, 4, 4]) = Inr (Dict Map.empty) \<and>
   CIF_Multihead_forward refinement_over_dict (zeros [1, 3, 4, 4]) = Inl AttributeError"
  by (simp add: CIF_Multihead_init_def refinement_over_dict_def upstream_dict_def
      CIF_Multihead_forward_def Multi_Heads_call_def ebind_def)

text \<open>
  Claim C4, amended.  \<open>CIF_Multihead.forward\<close> hands the upstream output itself to the
  attention stack: an upstream error is passed on, a dictionary (with or without the
  designated name) makes it fail with an attribute error, and a tensor is refined and
  returned under \<open>"CIF_MultiHead"\<close>.
\<close>

theorem CIF_Multihead_forward_cases:
  "(forward (features1 self) x = Inl e \<longrightarrow> CIF_Multihead_forward self x = Inl e) \<and>
   (forward (features1 self) x = Inr (Dict d) \<longrightarrow> CIF_Multihead_forward self x = Inl AttributeError) \<and>
   (forward (features1 self) x = Inr (Tensor t) \<longrightarrow>
      CIF_Multihead_forward self x =
        ebind (Multi_Heads_forward (features2 self) t) (\<lambda>r. Inr [''CIF_MultiHead'' \<mapsto> r]))"
  by (simp add: CIF_Multihead_forward_def Multi_Heads_call_def ebind_def)

theorem CIF_Multihead_forward_cases_witness:
  "forward (features1 refinement_over_dict) (zeros [1, 3, 4, 4]) = Inr (Dict Map.empty) \<and>
   CIF_Multihead_forward refinement_over_dict (zeros [1, 3, 4, 4]) = Inl AttributeError"
proof -
  have a: "forward (features1 refinement_over_dict) (zeros [1, 3, 4, 4]) = Inr (Dict Map.empty)"
    by (simp add: refinement_over_dict_def upstream_dict_def)
  from a CIF_Multihead_forward_cases [of refinement_over_dict "zeros [1, 3, 4, 4]" undefined Map.empty undefined]
  show ?thesis by blast
qed

section \<open>The attention stack\<close>

text \<open>
  Claim C9.  \<open>Multi_Heads.forward\<close> never calls the feed-forward member: its result is
  the same for any two assignments of that member's parameters.
\<close>

theorem Multi_Heads_forward_ignores_Feed_forward:
  "Multi_Heads_forward (s\<lparr>Feed_forward := p\<rparr>) x = Multi_Heads_forward (s\<lparr>Feed_forward := p'\<rparr>) x"
  by (simp add: Multi_Heads_forward_def)

theorem Multi_Heads_forward_ignores_Feed_forward_witness:
  "Multi_Heads_forward (Multi_Heads_zero\<lparr>Feed_forward := PoswiseFeedForwardNet_zero 512 2048\<rparr>) (zeros [1, 512, 1, 1])
   = Multi_Heads_forward (Multi_Heads_zero\<lparr>Feed_forward := PoswiseFeedForwardNet_zero 512 1\<rparr>) (zeros [1, 512, 1, 1])"
  by (rule Multi_Heads_forward_ignores_Feed_forward)

text \<open>
  Claim C3 says that \<open>Multi_Heads.forward\<close> returns a tensor of the shape of its input
  for every feature map of shape \<open>(B, 512, H, W)\<close>.  For \<open>B = 0\<close> it raises.
\<close>

theorem Multi_Heads_forward_batch0_fails:
  "Multi_Heads_inv Multi_Heads_zero \<and> shape (zeros [0, 512, 7, 7]) = [0, 512, 7, 7] \<and>
   Multi_Heads_forward Multi_Heads_zero (zeros [0, 512, 7, 7]) = Inl RuntimeError"
  by (simp add: Multi_Heads_inv_zero shape_zeros
      Multi_Heads_forward_batch0 [OF Multi_Heads_inv_zero])

text \<open>
  Claim C3, amended.  For every feature map of shape \<open>(B, 512, H, W)\<close> with \<open>B \<ge> 1\<close>,
  \<open>Multi_Heads.forward\<close> returns a tensor of exactly the shape \<open>(B, 512, H, W)\<close>.
\<close>

theorem Multi_Heads_forward_shape:
  assumes "Multi_Heads_inv s" "shape x = [B, 512, H, W]" "0 < B"
  shows "\<exists>y. Multi_Heads_forward s x = Inr y \<and> shape y = [B, 512, H, W] \<and> tensor_ok y"
  by (simp add: Multi_Heads_forward_4 [OF assms])

theorem Multi_Heads_forward_shape_witness:
  "\<exists>y. Multi_Heads_forward Multi_Heads_zero (zeros [2, 512, 7, 7]) = Inr y \<and>
        shape y = [2, 512, 7, 7] \<and> tensor_ok y"
  by (rule Multi_Heads_forward_shape [OF Multi_Heads_inv_zero]) (simp_all add: shape_zeros)

text \<open>
  Claim C8.  A feature map whose channel count is not 512, such as 256, makes
  \<open>Multi_Heads.forward\<close> fail with the library's shape error and return nothing; in
  general \<open>MultiHeadAttention.forward\<close> fails so whenever the embedding width of
  \<open>input_Q\<close> differs from the configured \<open>d_model\<close>.
\<close>

theorem embedding_width_mismatch:
  "(Multi_Heads_inv s \<and> shape x = [B, C, H, W] \<and> C \<noteq> 512 \<longrightarrow>
      Multi_Heads_forward s x = Inl RuntimeError) \<and>
   (MultiHeadAttention_inv D m \<and> shape xq \<noteq> [] \<and> last (shape xq) \<noteq> D \<longrightarrow>
      MultiHeadAttention_forward m xq xk xv = Inl RuntimeError)"
  using Multi_Heads_forward_mismatch MultiHeadAttention_forward_mismatch by blast

theorem embedding_width_mismatch_witness:
  "Multi_Heads_forward Multi_Heads_zero (zeros [2, 256, 7, 7]) = Inl RuntimeError \<and>
   MultiHeadAttention_forward (MultiHeadAttention_zero 512 64 64 8)
     (zeros [2, 49, 256]) (zeros [2, 49, 256]) (zeros [2, 49, 256]) = Inl RuntimeError"
proof -
  have a: "Multi_Heads_inv Multi_Heads_zero \<and> shape (zeros [2, 256, 7, 7]) = [2, 256, 7, 7] \<and>
           (256::nat) \<noteq> 512"
    by (simp add: Multi_Heads_inv_zero shape_zeros)
  have b: "MultiHeadAttention_inv 512 (MultiHeadAttention_zero 512 64 64 8) \<and>
           shape (zeros [2, 49, 256]) \<noteq> [] \<and> last (shape (zeros [2, 49, 256])) \<noteq> 512"
    by (simp add: MultiHeadAttention_inv_zero shape_zeros)
  from a b embedding_width_mismatch [of Multi_Heads_zero "zeros [2, 256, 7, 7]" 2 256 7 7 512
      "MultiHeadAttention_zero 512 64 64 8" "zeros [2, 49, 256]" "zeros [2, 49, 256]" "zeros [2, 49, 256]"]
  show ?thesis by blast
qed

text \<open>
  Permutation equivariance of the formulas, in exact arithmetic.  With tensor entries
  read as real numbers, for every feature map \<open>x\<close> of shape \<open>(B, 512, H, W)\<close> and every
  permutation \<open>\<pi>\<close> of the \<open>H * W\<close> spatial positions, \<open>Multi_Heads.forward\<close> of the
  permuted map is the permuted \<open>Multi_Heads.forward\<close> of \<open>x\<close> (an error of the one is the
  same error of the other).  The proof reorders the sums over the key axis.  The program
  computes those sums in floating point, where the value of a sum depends on the order
  of its terms, so this fact does not give the equality \<open>==\<close> of claim C6 for the
  tensors the program returns; that equality is a property of floating-point rounding,
  which this embedding does not state.
\<close>

lemma Multi_Heads_forward_permutation_equivariant_exact:
  assumes inv: "Multi_Heads_inv s" and sx: "shape x = [B, 512, H, W]"
    and bij: "bij_betw \<pi> {..<H * W} {..<H * W}"
  shows "Multi_Heads_forward s (permute_tokens \<pi> x) =
         map_sum id (permute_tokens \<pi>) (Multi_Heads_forward s x)"
proof (cases "B = 0")
  case True
  have "Multi_Heads_forward s x = Inl RuntimeError"
    using inv sx True by (intro Multi_Heads_forward_batch0 [of _ _ H W]) simp_all
  moreover have "Multi_Heads_forward s (permute_tokens \<pi> x) = Inl RuntimeError"
    using inv sx True by (intro Multi_Heads_forward_batch0 [of _ _ H W])
      (simp_all add: shape_permute_tokens)
  ultimately show ?thesis by simp
next
  case False
  then have pos: "0 < B" by simp
  have sx': "shape (permute_tokens \<pi> x) = [B, 512, H, W]"
    by (simp add: shape_permute_tokens sx)
  have l: "Multi_Heads_forward s (permute_tokens \<pi> x) =
      Inr (from_fn [B, 512, H, W] (fn4 (stack_fn s H W (elt4 (permute_tokens \<pi> x)))))"
    by (rule Multi_Heads_forward_4 [OF inv sx' pos])
  have r: "Multi_Heads_forward s x = Inr (from_fn [B, 512, H, W] (fn4 (stack_fn s H W (elt4 x))))"
    by (rule Multi_Heads_forward_4 [OF inv sx pos])
  have "from_fn [B, 512, H, W] (fn4 (stack_fn s H W (elt4 (permute_tokens \<pi> x)))) =
        permute_tokens \<pi> (from_fn [B, 512, H, W] (fn4 (stack_fn s H W (elt4 x))))"
    unfolding permute_tokens_4 [of "from_fn [B, 512, H, W] (fn4 (stack_fn s H W (elt4 x)))" B 512 H W \<pi>, simplified]
  proof (rule from_fn_cong)
    fix idx assume "valid_idx [B, 512, H, W] idx"
    then obtain b c h w where idx: "idx = [b, c, h, w]"
      and lt: "b < B" "c < 512" "h < H" "w < W" by auto
    have Wpos: "0 < W" using lt(4) by simp
    have hw: "h * W + w < H * W"
    proof -
      have "h * W + w < Suc h * W" using lt(4) by simp
      also have "\<dots> \<le> H * W" using lt(3) by (intro mult_le_mono1) simp
      finally show ?thesis .
    qed
    have "\<pi> (h * W + w) < H * W" using bij hw by (auto simp: bij_betw_def)
    then have d: "\<pi> (h * W + w) div W < H" using Wpos by (simp add: less_mult_imp_div_less)
    have md: "\<pi> (h * W + w) mod W < W" using Wpos by simp
    have "elt4 (from_fn [B, 512, H, W] (fn4 (stack_fn s H W (elt4 x)))) b c
            (\<pi> (h * W + w) div W) (\<pi> (h * W + w) mod W)
        = stack_fn s H W (elt4 x) b c (\<pi> (h * W + w) div W) (\<pi> (h * W + w) mod W)"
      using lt(1,2) d md by (rule elt4_from_fn)
    then show "fn4 (stack_fn s H W (elt4 (permute_tokens \<pi> x))) idx =
        fn4 (\<lambda>b c h w. elt4 (from_fn [B, 512, H, W] (fn4 (stack_fn s H W (elt4 x)))) b c
            (\<pi> (h * W + w) div W) (\<pi> (h * W + w) mod W)) idx"
      by (simp add: idx stack_fn_permute_tokens [OF sx bij lt])
  qed
  then show ?thesis by (simp add: l r)
qed

lemma Multi_Heads_forward_permutation_equivariant_exact_instance:
  "Multi_Heads_forward Multi_Heads_zero (permute_tokens swap01 (ramp [1, 512, 1, 2])) =
   map_sum id (permute_tokens swap01) (Multi_Heads_forward Multi_Heads_zero (ramp [1, 512, 1, 2]))"
proof -
  have "bij_betw swap01 {..<2} {..<2}"
    by (rule bij_betw_byWitness [where f' = swap01]) (auto simp: swap01_def)
  then have "bij_betw swap01 {..<1 * 2} {..<1 * 2}" by simp
  moreover have "shape (ramp [1, 512, 1, 2]) = [1, 512, 1, 2]" by (simp add: ramp_def)
  ultimately show ?thesis
    by (rule Multi_Heads_forward_permutation_equivariant_exact [OF Multi_Heads_inv_zero, rotated])
qed

end
